theory Spec2Isabelle
  imports Complex_Main
begin

section \<open>The numeric template parameter\<close>

text \<open>
  Every function of \<^verbatim>\<open>Utils.h\<close> is a template over the number type \<^verbatim>\<open>Real\<close>
  (\<^verbatim>\<open>double\<close>, \<^verbatim>\<open>long double\<close>, a 128 bit float or a big float). The model is
  polymorphic in the same way: a function takes the operations of its number type
  \<open>'r\<close> as a record. The fields are the operations the source applies to a
  \<^verbatim>\<open>Real\<close>: conversion from \<^verbatim>\<open>int\<close>, the comparisons \<^verbatim>\<open><\<close> and \<^verbatim>\<open><=\<close>
  (\<^verbatim>\<open>a > b\<close> is read as \<^verbatim>\<open>b < a\<close> and \<^verbatim>\<open>a >= b\<close> as \<^verbatim>\<open>b <= a\<close>), \<^verbatim>\<open>-\<close>, \<^verbatim>\<open>*\<close>,
  \<^verbatim>\<open>/\<close>, \<^verbatim>\<open>sin\<close>, \<^verbatim>\<open>abs\<close>, \<^verbatim>\<open>isnan\<close>, \<^verbatim>\<open>std::numeric_limits<Real>::quiet_NaN()\<close>,
  \<^verbatim>\<open>boost::math::constants::two_pi<Real>()\<close>, \<^verbatim>\<open>half<Real>()\<close>,
  \<^verbatim>\<open>MY_FLOOR<Real>::convert\<close>, the conversion of a \<^verbatim>\<open>Real\<close> to \<^verbatim>\<open>int\<close> and the
  norm of an \<^verbatim>\<open>Eigen::Vector<Real, 2>\<close>.
\<close>

record 'r real_ops =
  r_of_int :: "int \<Rightarrow> 'r"
  r_lt :: "'r \<Rightarrow> 'r \<Rightarrow> bool"
  r_le :: "'r \<Rightarrow> 'r \<Rightarrow> bool"
  r_sub :: "'r \<Rightarrow> 'r \<Rightarrow> 'r"
  r_mul :: "'r \<Rightarrow> 'r \<Rightarrow> 'r"
  r_div :: "'r \<Rightarrow> 'r \<Rightarrow> 'r"
  r_sin :: "'r \<Rightarrow> 'r"
  r_abs :: "'r \<Rightarrow> 'r"
  r_isnan :: "'r \<Rightarrow> bool"
  quiet_NaN :: "'r"
  two_pi :: "'r"
  half :: "'r"
  MY_FLOOR :: "'r \<Rightarrow> 'r"
  r_to_int :: "'r \<Rightarrow> int"
  r_norm :: "'r \<times> 'r \<Rightarrow> 'r"

text \<open>\<^verbatim>\<open>sgn\<close>: \<^verbatim>\<open>(T(0) < val) - (val < T(0))\<close>, an \<^verbatim>\<open>int\<close>.\<close>

definition sgn_r :: "'r real_ops \<Rightarrow> 'r \<Rightarrow> int" where
  "sgn_r ops val =
     (if r_lt ops (r_of_int ops 0) val then 1 else 0) -
     (if r_lt ops val (r_of_int ops 0) then 1 else 0)"

text \<open>
  \<^verbatim>\<open>wrap_phi\<close> (the source's comment: move phi to [0, 2pi)). The source updates
  its argument in place; the model returns the new value.
\<close>

definition wrap_phi :: "'r real_ops \<Rightarrow> 'r \<Rightarrow> 'r" where
  "wrap_phi ops phi =
     (if r_lt ops phi (r_of_int ops 0) \<or> r_le ops (two_pi ops) phi
      then r_sub ops phi (r_mul ops (two_pi ops) (MY_FLOOR ops (r_div ops phi (two_pi ops))))
      else phi)"

section \<open>The ray tracer and its parameters\<close>

text \<open>
  \<^verbatim>\<open>ForwardRayTracing.h\<close> is not among the sources. What \<^verbatim>\<open>Utils.h\<close> reads and
  writes of its types is modelled, the rest of each type is a field of an
  unspecified type.
\<close>

datatype RayStatus =
  NORMAL | CONFINED | ETA_OUT_OF_RANGE | THETA_OUT_OF_RANGE | ARGUMENT_ERROR | UNKOWN_ERROR

datatype Sign = POSITIVE | NEGATIVE

record ('r, 'p) ForwardRayTracingParams =
  rc :: "'r"
  log_abs_d :: "'r"
  d_sign :: "Sign"
  print_args_error :: "bool"
  params_rest :: "'p"

record ('r, 'x) ForwardRayTracingResult =
  res_rc :: "'r"
  res_log_abs_d :: "'r"
  res_d_sign :: "Sign"
  res_rest :: "'x"

text \<open>
  The state of a \<^verbatim>\<open>ForwardRayTracing\<close> object after \<^verbatim>\<open>calc_ray\<close>: the members
  \<^verbatim>\<open>Utils.h\<close> reads, and what \<^verbatim>\<open>to_result()\<close> returns in that state.
\<close>

record ('r, 'x) ForwardRayTracing =
  ray_status :: "RayStatus"
  theta_f :: "'r"
  phi_f :: "'r"
  ray_lambda :: "'r"
  ray_eta :: "'r"
  to_result :: "('r, 'x) ForwardRayTracingResult"

section \<open>The residual function\<close>

text \<open>
  The constant members of a \<^verbatim>\<open>RootFunctor\<close>. Its other two members are a reference
  to the caller's parameters and a pointer to a pooled ray tracer; a call writes
  both. They are the state a call takes and returns.
\<close>

record 'r RootFunctor =
  rf_theta_o :: "'r"
  rf_phi_o :: "'r"
  rf_period :: "int"
  rf_fixed_period :: "bool"

type_synonym 'r Vector2 = "'r \<times> 'r"

type_synonym ('r, 'p, 'x) tracer_state =
  "('r, 'p) ForwardRayTracingParams \<times> ('r, 'x) ForwardRayTracing"

type_synonym ('r, 'p, 'x) residual_fn =
  "'r Vector2 \<Rightarrow> ('r, 'p, 'x) tracer_state \<Rightarrow> 'r Vector2 \<times> ('r, 'p, 'x) tracer_state"

text \<open>
  The collaborators of \<^verbatim>\<open>Utils.h\<close> whose code is not among the sources, as
  parameters: the transform \<^verbatim>\<open>rc_d_to_lambda_q\<close> of the parameters, the ray tracer
  \<^verbatim>\<open>calc_ray\<close> (the oracle, a function of the parameters), the state of a tracer
  taken from the pool before its first \<^verbatim>\<open>calc_ray\<close>, the solver
  \<^verbatim>\<open>BroydenDF::broyden_df\<close> (it updates the point \<^verbatim>\<open>x\<close> in place and calls the
  residual function, which updates the parameters and the tracer), the default
  constructed result, the two formatting functions of the failure reasons, the
  nearest neighbour query of the R-tree and \<^verbatim>\<open>std::sort\<close> on indices.
\<close>

record ('r, 'p, 'x) env =
  rc_d_to_lambda_q :: "('r, 'p) ForwardRayTracingParams \<Rightarrow> ('r, 'p) ForwardRayTracingParams"
  calc_ray :: "('r, 'p) ForwardRayTracingParams \<Rightarrow> ('r, 'x) ForwardRayTracing"
  get_from_cache :: "('r, 'x) ForwardRayTracing"
  broyden_df :: "('r, 'p, 'x) residual_fn \<Rightarrow> 'r Vector2 \<Rightarrow> ('r, 'p, 'x) tracer_state
                  \<Rightarrow> 'r Vector2 \<times> ('r, 'p, 'x) tracer_state"
  default_result :: "('r, 'x) ForwardRayTracingResult"
  ray_status_to_str :: "RayStatus \<Rightarrow> string"
  fmt_real :: "'r \<Rightarrow> string"
  rtree_nearest :: "(nat \<times> nat) list \<Rightarrow> nat \<times> nat \<Rightarrow> nat \<times> nat"
  std_sort :: "(nat \<Rightarrow> nat \<Rightarrow> bool) \<Rightarrow> nat list \<Rightarrow> nat list"

definition INT_MAX :: int where
  "INT_MAX = 2147483647"

text \<open>The two constructors of \<^verbatim>\<open>RootFunctor\<close>: without and with a period.\<close>

definition RootFunctor_any :: "'r \<Rightarrow> 'r \<Rightarrow> 'r RootFunctor" where
  "RootFunctor_any theta_o' phi_o' =
     \<lparr>rf_theta_o = theta_o', rf_phi_o = phi_o', rf_period = INT_MAX, rf_fixed_period = False\<rparr>"

definition RootFunctor_period :: "int \<Rightarrow> 'r \<Rightarrow> 'r \<Rightarrow> 'r RootFunctor" where
  "RootFunctor_period period' theta_o' phi_o' =
     \<lparr>rf_theta_o = theta_o', rf_phi_o = phi_o', rf_period = period', rf_fixed_period = True\<rparr>"

text \<open>
  \<^verbatim>\<open>RootFunctor::operator()\<close>. The lines printed on a status other than
  \<^verbatim>\<open>NORMAL\<close> are not modelled.
\<close>

definition RootFunctor_call ::
  "'r real_ops \<Rightarrow> ('r, 'p, 'x) env \<Rightarrow> 'r RootFunctor \<Rightarrow> ('r, 'p, 'x) residual_fn" where
  "RootFunctor_call ops e f x st =
     (let params = rc_d_to_lambda_q e ((fst st)\<lparr>rc := fst x, log_abs_d := snd x\<rparr>);
          ray_tracing = calc_ray e params
      in if ray_status ray_tracing \<noteq> NORMAL
         then ((quiet_NaN ops, quiet_NaN ops), (params, ray_tracing))
         else
           ((r_sub ops (theta_f ray_tracing) (rf_theta_o f),
             (if rf_fixed_period f
              then r_sub ops (r_sub ops (phi_f ray_tracing) (rf_phi_o f))
                     (r_mul ops (r_of_int ops (rf_period f)) (two_pi ops))
              else r_sin ops (r_mul ops (r_sub ops (phi_f ray_tracing) (rf_phi_o f)) (half ops)))),
            (params, ray_tracing)))"

section \<open>Root finding\<close>

record ('r, 'x) FindRootResult =
  success :: "bool"
  fail_reason :: "string"
  root :: "('r, 'x) ForwardRayTracingResult option"

text \<open>
  The functor \<^verbatim>\<open>find_root_period\<close> builds: the period \<^verbatim>\<open>INT_MAX\<close> selects the
  constructor without a period.
\<close>

definition select_root_functor :: "int \<Rightarrow> 'r \<Rightarrow> 'r \<Rightarrow> 'r RootFunctor" where
  "select_root_functor period theta_o phi_o =
     (if period = INT_MAX then RootFunctor_any theta_o phi_o
      else RootFunctor_period period theta_o phi_o)"

text \<open>
  \<^verbatim>\<open>find_root_period\<close>: the solver runs from the point of the parameters, the
  residual function is evaluated once more at the point the solver left, and the
  result is built from the state of that last evaluation.
\<close>

definition find_root_period ::
  "'r real_ops \<Rightarrow> ('r, 'p, 'x) env \<Rightarrow> ('r, 'p) ForwardRayTracingParams \<Rightarrow> int \<Rightarrow> 'r \<Rightarrow> 'r \<Rightarrow> 'r
     \<Rightarrow> ('r, 'x) FindRootResult" where
  "find_root_period ops e params period theta_o phi_o tol =
     (let phi_o = wrap_phi ops phi_o;
          local_params = params;
          x = (rc local_params, log_abs_d local_params);
          root_functor = select_root_functor period theta_o phi_o;
          (x, st) = broyden_df e (RootFunctor_call ops e root_functor) x
                      (local_params, get_from_cache e);
          (residual, local_params, ray_tracing) = RootFunctor_call ops e root_functor x st
      in if ray_status ray_tracing \<noteq> NORMAL
         then \<lparr>success = False,
               fail_reason = ''ray status: '' @ ray_status_to_str e (ray_status ray_tracing),
               root = None\<rparr>
         else if r_lt ops tol (r_norm ops residual)
         then \<lparr>success = False,
               fail_reason = ''residual > threshold: '' @ fmt_real e (r_norm ops residual) @
                 '' > '' @ fmt_real e tol,
               root = None\<rparr>
         else \<lparr>success = True, fail_reason = [],
               root = Some ((to_result ray_tracing)
                 \<lparr>res_rc := fst x, res_log_abs_d := snd x,
                  res_d_sign := d_sign local_params\<rparr>)\<rparr>)"

definition find_root ::
  "'r real_ops \<Rightarrow> ('r, 'p, 'x) env \<Rightarrow> ('r, 'p) ForwardRayTracingParams \<Rightarrow> 'r \<Rightarrow> 'r \<Rightarrow> 'r
     \<Rightarrow> ('r, 'x) FindRootResult" where
  "find_root ops e params theta_o phi_o tol =
     (let phi_o = wrap_phi ops phi_o
      in find_root_period ops e params INT_MAX theta_o phi_o tol)"

section \<open>Single and batch evaluation\<close>

text \<open>\<^verbatim>\<open>ForwardRayTracingUtils::calc_ray\<close>.\<close>

definition Utils_calc_ray ::
  "('r, 'p, 'x) env \<Rightarrow> ('r, 'p) ForwardRayTracingParams \<Rightarrow> ('r, 'x) ForwardRayTracingResult" where
  "Utils_calc_ray e params = to_result (calc_ray e params)"

text \<open>
  \<^verbatim>\<open>calc_ray_batch\<close>: \<^verbatim>\<open>parallel_for\<close> over \<^verbatim>\<open>blocked_range(0, n)\<close> hands
  the body sub-ranges \<open>[begin, end)\<close> of its choice. The list \<open>ranges\<close> is that
  choice, in the order of execution; the body writes \<^verbatim>\<open>results[i]\<close> for each
  index of its range. Tasks write distinct elements, so running them one after the
  other loses nothing.
\<close>

definition batch_body ::
  "('r, 'p, 'x) env \<Rightarrow> ('r, 'p) ForwardRayTracingParams list \<Rightarrow> nat \<times> nat
     \<Rightarrow> ('r, 'x) ForwardRayTracingResult list \<Rightarrow> ('r, 'x) ForwardRayTracingResult list" where
  "batch_body e params_list r results =
     fold (\<lambda>i res. res[i := to_result (calc_ray e (params_list ! i))]) [fst r..<snd r] results"

definition calc_ray_batch ::
  "('r, 'p, 'x) env \<Rightarrow> (nat \<times> nat) list \<Rightarrow> ('r, 'p) ForwardRayTracingParams list
     \<Rightarrow> ('r, 'x) ForwardRayTracingResult list" where
  "calc_ray_batch e ranges params_list =
     fold (batch_body e params_list) ranges
       (replicate (length params_list) (default_result e))"

text \<open>
  What TBB guarantees of the sub-ranges: together they cover every index of
  \<open>[0, n)\<close>, and none reaches beyond \<open>n\<close>.
\<close>

definition covers :: "(nat \<times> nat) list \<Rightarrow> nat \<Rightarrow> bool" where
  "covers ranges n = ((\<Union>r \<in> set ranges. {fst r..<snd r}) = {0..<n})"

section \<open>The sweep\<close>

type_synonym 'r Matrix = "'r list list"

type_synonym 'r PointVector = "('r \<times> 'r) list"

record ('r, 'x) SweepResult =
  sw_theta :: "'r Matrix"
  sw_phi :: "'r Matrix"
  sw_lambda :: "'r Matrix"
  sw_eta :: "'r Matrix"
  sw_delta_theta :: "'r Matrix"
  sw_delta_phi :: "'r Matrix"
  sw_theta_roots :: "'r PointVector"
  sw_phi_roots :: "'r PointVector"
  sw_theta_roots_closest :: "'r PointVector"
  sw_results :: "('r, 'x) ForwardRayTracingResult list"

definition coeff :: "'r Matrix \<Rightarrow> nat \<Rightarrow> nat \<Rightarrow> 'r" where
  "coeff m i j = m ! i ! j"

subsection \<open>Sampling\<close>

text \<open>
  The body of the first parallel loop at one grid point: the six values it stores at
  \<open>(i, j)\<close>. Each task works on its own copy of the caller's parameters, whose
  \<^verbatim>\<open>rc\<close> and \<^verbatim>\<open>log_abs_d\<close> it overwrites before \<^verbatim>\<open>rc_d_to_lambda_q\<close>. The
  copy is reused from one grid point of the task to the next; \<^verbatim>\<open>rc_d_to_lambda_q\<close>
  is taken to compute what it writes from \<^verbatim>\<open>rc\<close>, \<^verbatim>\<open>log_abs_d\<close> and the members
  it leaves alone, so that the model starts each point from the caller's parameters.
  The same holds of the copy in the refinement loop.
\<close>

record 'r cell =
  c_theta :: "'r"
  c_phi :: "'r"
  c_delta_theta :: "'r"
  c_delta_phi :: "'r"
  c_lambda :: "'r"
  c_eta :: "'r"

definition sample_cell ::
  "'r real_ops \<Rightarrow> ('r, 'p, 'x) env \<Rightarrow> ('r, 'p) ForwardRayTracingParams \<Rightarrow> 'r \<Rightarrow> 'r \<Rightarrow> 'r \<Rightarrow> 'r
     \<Rightarrow> 'r cell" where
  "sample_cell ops e params theta_o phi_o rc_j lgd_i =
     (let local_params = rc_d_to_lambda_q e (params\<lparr>rc := rc_j, log_abs_d := lgd_i\<rparr>);
          ray = calc_ray e local_params
      in if ray_status ray = NORMAL
         then \<lparr>c_theta = theta_f ray, c_phi = phi_f ray,
               c_delta_theta = r_sub ops (theta_f ray) theta_o,
               c_delta_phi = r_sin ops (r_mul ops (r_sub ops (phi_f ray) phi_o) (half ops)),
               c_lambda = ray_lambda ray, c_eta = ray_eta ray\<rparr>
         else \<lparr>c_theta = quiet_NaN ops, c_phi = quiet_NaN ops,
               c_delta_theta = quiet_NaN ops, c_delta_phi = quiet_NaN ops,
               c_lambda = quiet_NaN ops, c_eta = quiet_NaN ops\<rparr>)"

text \<open>The grid: row \<open>i\<close> is \<^verbatim>\<open>lgd_list[i]\<close>, column \<open>j\<close> is \<^verbatim>\<open>rc_list[j]\<close>.\<close>

definition sample_grid ::
  "'r real_ops \<Rightarrow> ('r, 'p, 'x) env \<Rightarrow> ('r, 'p) ForwardRayTracingParams \<Rightarrow> 'r \<Rightarrow> 'r \<Rightarrow> 'r list
     \<Rightarrow> 'r list \<Rightarrow> 'r cell list list" where
  "sample_grid ops e params theta_o phi_o rc_list lgd_list =
     map (\<lambda>lgd_i. map (\<lambda>rc_j. sample_cell ops e params theta_o phi_o rc_j lgd_i) rc_list)
       lgd_list"

subsection \<open>Root isolation\<close>

text \<open>
  The two tests of the second parallel loop at the cell \<open>(i, j)\<close>, with the
  source's \<^verbatim>\<open>d_row\<close>, \<^verbatim>\<open>d_col\<close>, \<^verbatim>\<open>d_row_lambda\<close> and \<^verbatim>\<open>d_col_lambda\<close>.
\<close>

definition theta_test :: "'r real_ops \<Rightarrow> 'r Matrix \<Rightarrow> nat \<Rightarrow> nat \<Rightarrow> bool" where
  "theta_test ops delta_theta i j =
     (let d_row = sgn_r ops (coeff delta_theta i j) * sgn_r ops (coeff delta_theta i (j - 1));
          d_col = sgn_r ops (coeff delta_theta i j) * sgn_r ops (coeff delta_theta (i - 1) j)
      in \<not> r_isnan ops (coeff delta_theta i j) \<and> \<not> r_isnan ops (coeff delta_theta i (j - 1)) \<and>
         \<not> r_isnan ops (coeff delta_theta (i - 1) j) \<and> (d_row \<le> 0 \<or> d_col \<le> 0))"

definition phi_test :: "'r real_ops \<Rightarrow> 'r Matrix \<Rightarrow> 'r Matrix \<Rightarrow> nat \<Rightarrow> nat \<Rightarrow> bool" where
  "phi_test ops delta_phi lam i j =
     (let d_row = sgn_r ops (coeff delta_phi i j) * sgn_r ops (coeff delta_phi i (j - 1));
          d_col = sgn_r ops (coeff delta_phi i j) * sgn_r ops (coeff delta_phi (i - 1) j);
          d_row_lambda = sgn_r ops (coeff lam i j) * sgn_r ops (coeff lam i (j - 1));
          d_col_lambda = sgn_r ops (coeff lam i j) * sgn_r ops (coeff lam (i - 1) j)
      in \<not> r_isnan ops (coeff delta_phi i j) \<and> \<not> r_isnan ops (coeff delta_phi i (j - 1)) \<and>
         \<not> r_isnan ops (coeff delta_phi (i - 1) j) \<and>
         \<not> r_isnan ops (coeff lam i j) \<and> \<not> r_isnan ops (coeff lam i (j - 1)) \<and>
         \<not> r_isnan ops (coeff lam (i - 1) j) \<and> 0 < d_row_lambda \<and> 0 < d_col_lambda \<and>
         (d_row \<le> 0 \<or> d_col \<le> 0))"

text \<open>
  The loop runs over \<^verbatim>\<open>blocked_range2d(1, lgd_size, 1, rc_size)\<close> and appends
  \<open>(i, j)\<close> to a concurrent vector. The model lists the cells row by row.
\<close>

definition interior :: "nat \<Rightarrow> nat \<Rightarrow> (nat \<times> nat) list" where
  "interior lgd_size rc_size = List.product [1..<lgd_size] [1..<rc_size]"

definition theta_roots_index :: "'r real_ops \<Rightarrow> 'r Matrix \<Rightarrow> nat \<Rightarrow> nat \<Rightarrow> (nat \<times> nat) list" where
  "theta_roots_index ops delta_theta lgd_size rc_size =
     filter (\<lambda>(i, j). theta_test ops delta_theta i j) (interior lgd_size rc_size)"

definition phi_roots_index ::
  "'r real_ops \<Rightarrow> 'r Matrix \<Rightarrow> 'r Matrix \<Rightarrow> nat \<Rightarrow> nat \<Rightarrow> (nat \<times> nat) list" where
  "phi_roots_index ops delta_phi lam lgd_size rc_size =
     filter (\<lambda>(i, j). phi_test ops delta_phi lam i j) (interior lgd_size rc_size)"

text \<open>A row of a point list: \<^verbatim>\<open>(rc_list[get<1>], lgd_list[get<0>])\<close>.\<close>

definition root_row :: "'r list \<Rightarrow> 'r list \<Rightarrow> nat \<times> nat \<Rightarrow> 'r \<times> 'r" where
  "root_row rc_list lgd_list p = (rc_list ! snd p, lgd_list ! fst p)"

subsection \<open>Pairing and ranking\<close>

text \<open>
  \<^verbatim>\<open>bg::distance\<close> of two grid points, the Euclidean distance of their integer
  coordinates.
\<close>

definition bg_distance :: "nat \<times> nat \<Rightarrow> nat \<times> nat \<Rightarrow> real" where
  "bg_distance p q =
     sqrt (real_of_int ((int (fst p) - int (fst q))\<^sup>2 + (int (snd p) - int (snd q))\<^sup>2))"

definition theta_roots_closest_index ::
  "('r, 'p, 'x) env \<Rightarrow> (nat \<times> nat) list \<Rightarrow> (nat \<times> nat) list \<Rightarrow> (nat \<times> nat) list" where
  "theta_roots_closest_index e theta_idx phi_idx = map (rtree_nearest e phi_idx) theta_idx"

definition distances :: "(nat \<times> nat) list \<Rightarrow> (nat \<times> nat) list \<Rightarrow> real list" where
  "distances theta_idx closest_idx = map2 bg_distance theta_idx closest_idx"

text \<open>
  \<^verbatim>\<open>std::iota\<close> and \<^verbatim>\<open>std::sort\<close> with the comparison of the distances; the
  order \<^verbatim>\<open>std::sort\<close> gives to equal distances is its own.
\<close>

definition sorted_indices :: "('r, 'p, 'x) env \<Rightarrow> real list \<Rightarrow> nat list" where
  "sorted_indices e ds = std_sort e (\<lambda>i1 i2. ds ! i1 < ds ! i2) [0..<length ds]"

subsection \<open>Refinement\<close>

text \<open>
  The body of the third parallel loop for the \<open>i\<close>-th ranked candidate: the results
  it appends (one on success, none on failure; the line printed on failure is not
  modelled). The loop appends under a mutex; the model appends in the order of \<open>i\<close>.
\<close>

definition refine_one ::
  "'r real_ops \<Rightarrow> ('r, 'p, 'x) env \<Rightarrow> ('r, 'p) ForwardRayTracingParams \<Rightarrow> 'r \<Rightarrow> 'r \<Rightarrow> 'r list
     \<Rightarrow> 'r list \<Rightarrow> 'r \<Rightarrow> 'r Matrix \<Rightarrow> (nat \<times> nat) list \<Rightarrow> nat list \<Rightarrow> nat
     \<Rightarrow> ('r, 'x) ForwardRayTracingResult list" where
  "refine_one ops e params theta_o phi_o rc_list lgd_list tol phi_m closest_idx indices i =
     (let row = fst (closest_idx ! (indices ! i));
          col = snd (closest_idx ! (indices ! i));
          local_params =
            rc_d_to_lambda_q e (params\<lparr>rc := rc_list ! col, log_abs_d := lgd_list ! row\<rparr>);
          period = r_to_int ops (MY_FLOOR ops (r_div ops (coeff phi_m row col) (two_pi ops)));
          root_res = find_root_period ops e local_params period theta_o phi_o tol
      in if success root_res
         then (case root root_res of Some r \<Rightarrow> [r] | None \<Rightarrow> [])
         else [])"

subsection \<open>Deduplication\<close>

text \<open>The test of the inner loop on \<^verbatim>\<open>results[i]\<close> and \<^verbatim>\<open>results[j]\<close>.\<close>

definition is_dup ::
  "'r real_ops \<Rightarrow> 'r \<Rightarrow> ('r, 'x) ForwardRayTracingResult \<Rightarrow> ('r, 'x) ForwardRayTracingResult
     \<Rightarrow> bool" where
  "is_dup ops tol a b =
     (r_lt ops (r_abs ops (r_sub ops (res_rc a) (res_rc b))) tol \<and>
      r_lt ops (r_abs ops (r_sub ops (res_log_abs_d a) (res_log_abs_d b))) tol)"

text \<open>
  The two nested loops: for each \<open>i\<close> in turn, the first \<open>j > i\<close> that passes the
  test is pushed and the inner loop breaks.
\<close>

definition duplicated_index ::
  "'r real_ops \<Rightarrow> 'r \<Rightarrow> ('r, 'x) ForwardRayTracingResult list \<Rightarrow> nat list" where
  "duplicated_index ops tol results =
     List.map_filter
       (\<lambda>i. find (\<lambda>j. is_dup ops tol (results ! i) (results ! j)) [i + 1..<length results])
       [0..<length results]"

text \<open>
  \<^verbatim>\<open>results.erase(results.begin() + k)\<close> for each \<open>k\<close> of a list in turn. Erasing
  at or beyond \<^verbatim>\<open>end()\<close> is undefined behaviour: \<open>None\<close>.
\<close>

fun erase_each :: "'a list \<Rightarrow> nat list \<Rightarrow> 'a list option" where
  "erase_each xs [] = Some xs"
| "erase_each xs (k # ks) =
     (if k < length xs then erase_each (take k xs @ drop (Suc k) xs) ks else None)"

text \<open>
  The indices are sorted and erased from the last to the first
  (\<^verbatim>\<open>for (i = duplicated_index.size(); i > 0; i--)\<close>).
\<close>

definition remove_duplicated ::
  "'r real_ops \<Rightarrow> 'r \<Rightarrow> ('r, 'x) ForwardRayTracingResult list
     \<Rightarrow> ('r, 'x) ForwardRayTracingResult list option" where
  "remove_duplicated ops tol results =
     erase_each results (rev (sort (duplicated_index ops tol results)))"

subsection \<open>The whole sweep\<close>

text \<open>
  \<^verbatim>\<open>sweep_rc_d\<close>. A default constructed \<^verbatim>\<open>SweepResult\<close> has empty point lists
  and an empty result list. The value is \<open>None\<close> where the removal of duplicates
  erases at or beyond the end of the list.
\<close>

definition sweep_rc_d ::
  "'r real_ops \<Rightarrow> ('r, 'p, 'x) env \<Rightarrow> ('r, 'p) ForwardRayTracingParams \<Rightarrow> 'r \<Rightarrow> 'r \<Rightarrow> 'r list
     \<Rightarrow> 'r list \<Rightarrow> nat \<Rightarrow> 'r \<Rightarrow> ('r, 'x) SweepResult option" where
  "sweep_rc_d ops e params theta_o phi_o rc_list lgd_list cutoff tol =
     (let phi_o = wrap_phi ops phi_o;
          rc_size = length rc_list;
          lgd_size = length lgd_list;
          grid = sample_grid ops e params theta_o phi_o rc_list lgd_list;
          sweep_result =
            \<lparr>sw_theta = map (map c_theta) grid, sw_phi = map (map c_phi) grid,
             sw_lambda = map (map c_lambda) grid, sw_eta = map (map c_eta) grid,
             sw_delta_theta = map (map c_delta_theta) grid,
             sw_delta_phi = map (map c_delta_phi) grid,
             sw_theta_roots = [], sw_phi_roots = [], sw_theta_roots_closest = [],
             sw_results = []\<rparr>;
          theta_idx = theta_roots_index ops (sw_delta_theta sweep_result) lgd_size rc_size;
          phi_idx =
            phi_roots_index ops (sw_delta_phi sweep_result) (sw_lambda sweep_result)
              lgd_size rc_size
      in if theta_idx = [] \<and> phi_idx = [] then Some sweep_result
         else
           let sweep_result =
                 sweep_result\<lparr>sw_theta_roots := map (root_row rc_list lgd_list) theta_idx\<rparr>
           in if phi_idx = [] then Some sweep_result
              else
                let sweep_result =
                      sweep_result\<lparr>sw_phi_roots := map (root_row rc_list lgd_list) phi_idx\<rparr>;
                    closest_idx = theta_roots_closest_index e theta_idx phi_idx;
                    indices = sorted_indices e (distances theta_idx closest_idx);
                    sweep_result =
                      sweep_result\<lparr>sw_theta_roots_closest :=
                        map (\<lambda>i. root_row rc_list lgd_list (closest_idx ! (indices ! i)))
                          [0..<length theta_idx]\<rparr>;
                    cutoff = min cutoff (length indices);
                    results =
                      concat (map (refine_one ops e params theta_o phi_o rc_list lgd_list tol
                                     (sw_phi sweep_result) closest_idx indices) [0..<cutoff])
                in map_option (\<lambda>rs. sweep_result\<lparr>sw_results := rs\<rparr>)
                     (remove_duplicated ops tol results))"

section \<open>The high precision sweep\<close>

text \<open>
  \<^verbatim>\<open>get_low_prec\<close> on a \<^verbatim>\<open>SweepResult\<close>. \<open>cast\<close> is the conversion of a number
  to the lower precision (\<^verbatim>\<open>cast<LReal>()\<close> on each coefficient of a matrix), and
  \<open>low_result\<close> is the overload of \<^verbatim>\<open>get_low_prec\<close> for a
  \<^verbatim>\<open>ForwardRayTracingResult\<close>, which is not among the sources.
\<close>

definition get_low_prec ::
  "('h \<Rightarrow> 'l) \<Rightarrow> (('h, 'y) ForwardRayTracingResult \<Rightarrow> ('l, 'x) ForwardRayTracingResult)
     \<Rightarrow> ('h, 'y) SweepResult \<Rightarrow> ('l, 'x) SweepResult" where
  "get_low_prec cast low_result x =
     \<lparr>sw_theta = map (map cast) (sw_theta x), sw_phi = map (map cast) (sw_phi x),
      sw_lambda = map (map cast) (sw_lambda x), sw_eta = map (map cast) (sw_eta x),
      sw_delta_theta = map (map cast) (sw_delta_theta x),
      sw_delta_phi = map (map cast) (sw_delta_phi x),
      sw_theta_roots = map (map_prod cast cast) (sw_theta_roots x),
      sw_phi_roots = map (map_prod cast cast) (sw_phi_roots x),
      sw_theta_roots_closest = map (map_prod cast cast) (sw_theta_roots_closest x),
      sw_results = fold (\<lambda>res acc. acc @ [low_result res]) (sw_results x) []\<rparr>"

text \<open>
  The two copy loops of \<^verbatim>\<open>sweep_rc_d_high\<close>: a vector of the size of the list,
  value initialised, then \<^verbatim>\<open>xs_h[i] = xs[i]\<close> for each index. \<open>promote\<close> is the
  conversion of a number to the higher precision.
\<close>

definition promote_list :: "'h real_ops \<Rightarrow> ('l \<Rightarrow> 'h) \<Rightarrow> 'l list \<Rightarrow> 'h list" where
  "promote_list ops_h promote xs =
     fold (\<lambda>i xs_h. xs_h[i := promote (xs ! i)]) [0..<length xs]
       (replicate (length xs) (r_of_int ops_h 0))"

text \<open>
  \<^verbatim>\<open>sweep_rc_d_high\<close>. \<open>ops_h\<close> and \<open>e_h\<close> are the operations and the
  collaborators at the higher precision, \<open>get_high_prec\<close> is the method of the
  parameters of that name.
\<close>

definition sweep_rc_d_high ::
  "'h real_ops \<Rightarrow> ('h, 'q, 'y) env \<Rightarrow> ('l \<Rightarrow> 'h) \<Rightarrow> ('h \<Rightarrow> 'l)
     \<Rightarrow> (('l, 'p) ForwardRayTracingParams \<Rightarrow> ('h, 'q) ForwardRayTracingParams)
     \<Rightarrow> (('h, 'y) ForwardRayTracingResult \<Rightarrow> ('l, 'x) ForwardRayTracingResult)
     \<Rightarrow> ('l, 'p) ForwardRayTracingParams \<Rightarrow> 'l \<Rightarrow> 'l \<Rightarrow> 'l list \<Rightarrow> 'l list \<Rightarrow> nat \<Rightarrow> 'l
     \<Rightarrow> ('l, 'x) SweepResult option" where
  "sweep_rc_d_high ops_h e_h promote cast get_high_prec low_result
       params theta_o phi_o rc_list lgd_list cutoff tol =
     (let params_h = get_high_prec params;
          theta_o_h = promote theta_o;
          phi_o_h = promote phi_o;
          rc_list_h = promote_list ops_h promote rc_list;
          lgd_list_h = promote_list ops_h promote lgd_list;
          tol_h = promote tol;
          result = sweep_rc_d ops_h e_h params_h theta_o_h phi_o_h rc_list_h lgd_list_h
                     cutoff tol_h
      in map_option (get_low_prec cast low_result) result)"

section \<open>Names for the stages of a sweep\<close>

text \<open>
  The two candidate lists of a sweep, as \<^verbatim>\<open>sweep_rc_d\<close> computes them from its
  arguments: names for stating what the sweep returns.
\<close>

definition sweep_theta_index ::
  "'r real_ops \<Rightarrow> ('r, 'p, 'x) env \<Rightarrow> ('r, 'p) ForwardRayTracingParams \<Rightarrow> 'r \<Rightarrow> 'r \<Rightarrow> 'r list
     \<Rightarrow> 'r list \<Rightarrow> (nat \<times> nat) list" where
  "sweep_theta_index ops e params theta_o phi_o rc_list lgd_list =
     theta_roots_index ops
       (map (map c_delta_theta)
          (sample_grid ops e params theta_o (wrap_phi ops phi_o) rc_list lgd_list))
       (length lgd_list) (length rc_list)"

definition sweep_phi_index ::
  "'r real_ops \<Rightarrow> ('r, 'p, 'x) env \<Rightarrow> ('r, 'p) ForwardRayTracingParams \<Rightarrow> 'r \<Rightarrow> 'r \<Rightarrow> 'r list
     \<Rightarrow> 'r list \<Rightarrow> (nat \<times> nat) list" where
  "sweep_phi_index ops e params theta_o phi_o rc_list lgd_list =
     phi_roots_index ops
       (map (map c_delta_phi)
          (sample_grid ops e params theta_o (wrap_phi ops phi_o) rc_list lgd_list))
       (map (map c_lambda)
          (sample_grid ops e params theta_o (wrap_phi ops phi_o) rc_list lgd_list))
       (length lgd_list) (length rc_list)"

text \<open>A matrix of \<open>rows\<close> rows and \<open>cols\<close> columns.\<close>

definition has_dims :: "'r Matrix \<Rightarrow> nat \<Rightarrow> nat \<Rightarrow> bool" where
  "has_dims m rows cols = (length m = rows \<and> list_all (\<lambda>row. length row = cols) m)"

text \<open>
  An empty sweep result: six matrices of the dimensions of the grid, no point in any of
  the three point lists, no result.
\<close>

definition empty_result :: "('r, 'x) SweepResult \<Rightarrow> nat \<Rightarrow> nat \<Rightarrow> bool" where
  "empty_result r rows cols =
     (sw_theta_roots r = [] \<and> sw_phi_roots r = [] \<and> sw_theta_roots_closest r = [] \<and>
      sw_results r = [] \<and>
      has_dims (sw_theta r) rows cols \<and> has_dims (sw_phi r) rows cols \<and>
      has_dims (sw_lambda r) rows cols \<and> has_dims (sw_eta r) rows cols \<and>
      has_dims (sw_delta_theta r) rows cols \<and> has_dims (sw_delta_phi r) rows cols)"

section \<open>Definitions worded from the specification\<close>

text \<open>
  The outcome the specification gives to \<^verbatim>\<open>findRoot\<close> and \<^verbatim>\<open>findRootAtPeriod\<close>,
  as a predicate on the result \<open>res\<close>: the solver runs from the point of the
  parameters with the residual function of the period and of the wrapped target
  azimuth \<open>phi_w\<close>; the residual is evaluated again at the point \<open>x\<close> the solver
  left. If the oracle's status there is not \<^verbatim>\<open>NORMAL\<close>, or the norm of the
  residual exceeds the tolerance, the result is a failure with a reason and no root;
  otherwise it is a success whose root has the coordinates of \<open>x\<close>.
\<close>

definition root_outcome ::
  "'r real_ops \<Rightarrow> ('r, 'p, 'x) env \<Rightarrow> ('r, 'p) ForwardRayTracingParams \<Rightarrow> int \<Rightarrow> 'r \<Rightarrow> 'r \<Rightarrow> 'r
     \<Rightarrow> ('r, 'x) FindRootResult \<Rightarrow> bool" where
  "root_outcome ops e params period theta_o phi_w tol res =
     (let F = RootFunctor_call ops e (select_root_functor period theta_o phi_w);
          (x, st) = broyden_df e F (rc params, log_abs_d params) (params, get_from_cache e);
          (residual, st') = F x st
      in if ray_status (snd st') \<noteq> NORMAL \<or> r_lt ops tol (r_norm ops residual)
         then \<not> success res \<and> fail_reason res \<noteq> [] \<and> root res = None
         else success res \<and>
              (\<exists>rt. root res = Some rt \<and> res_rc rt = fst x \<and> res_log_abs_d rt = snd x))"

text \<open>
  The high precision sweep as the specification words it: every numeric input is
  promoted, the sweep runs at the higher precision, and every field of its result is
  cast back.
\<close>

definition cast_SweepResult ::
  "('h \<Rightarrow> 'l) \<Rightarrow> (('h, 'y) ForwardRayTracingResult \<Rightarrow> ('l, 'x) ForwardRayTracingResult)
     \<Rightarrow> ('h, 'y) SweepResult \<Rightarrow> ('l, 'x) SweepResult" where
  "cast_SweepResult cast low_result x =
     \<lparr>sw_theta = map (map cast) (sw_theta x), sw_phi = map (map cast) (sw_phi x),
      sw_lambda = map (map cast) (sw_lambda x), sw_eta = map (map cast) (sw_eta x),
      sw_delta_theta = map (map cast) (sw_delta_theta x),
      sw_delta_phi = map (map cast) (sw_delta_phi x),
      sw_theta_roots = map (\<lambda>p. (cast (fst p), cast (snd p))) (sw_theta_roots x),
      sw_phi_roots = map (\<lambda>p. (cast (fst p), cast (snd p))) (sw_phi_roots x),
      sw_theta_roots_closest =
        map (\<lambda>p. (cast (fst p), cast (snd p))) (sw_theta_roots_closest x),
      sw_results = map low_result (sw_results x)\<rparr>"

definition sweepHighPrecision_spec ::
  "'h real_ops \<Rightarrow> ('h, 'q, 'y) env \<Rightarrow> ('l \<Rightarrow> 'h) \<Rightarrow> ('h \<Rightarrow> 'l)
     \<Rightarrow> (('l, 'p) ForwardRayTracingParams \<Rightarrow> ('h, 'q) ForwardRayTracingParams)
     \<Rightarrow> (('h, 'y) ForwardRayTracingResult \<Rightarrow> ('l, 'x) ForwardRayTracingResult)
     \<Rightarrow> ('l, 'p) ForwardRayTracingParams \<Rightarrow> 'l \<Rightarrow> 'l \<Rightarrow> 'l list \<Rightarrow> 'l list \<Rightarrow> nat \<Rightarrow> 'l
     \<Rightarrow> ('l, 'x) SweepResult option" where
  "sweepHighPrecision_spec ops_h e_h promote cast get_high_prec low_result
       params theta_o phi_o rc_list lgd_list cutoff tol =
     map_option (cast_SweepResult cast low_result)
       (sweep_rc_d ops_h e_h (get_high_prec params) (promote theta_o) (promote phi_o)
          (map promote rc_list) (map promote lgd_list) cutoff (promote tol))"

text \<open>
  The removal of duplicates as the specification words it: an entry is dropped when
  both its coordinates are within the tolerance of an earlier entry.
\<close>

definition keep_first ::
  "'r real_ops \<Rightarrow> 'r \<Rightarrow> ('r, 'x) ForwardRayTracingResult list
     \<Rightarrow> ('r, 'x) ForwardRayTracingResult list" where
  "keep_first ops tol xs =
     map ((!) xs)
       (filter (\<lambda>j. \<not> (\<exists>i<j. is_dup ops tol (xs ! i) (xs ! j))) [0..<length xs])"

text \<open>
  Being within the tolerance is symmetric and transitive on the entries of a list.
\<close>

definition dup_equivalence ::
  "'r real_ops \<Rightarrow> 'r \<Rightarrow> ('r, 'x) ForwardRayTracingResult list \<Rightarrow> bool" where
  "dup_equivalence ops tol xs =
     ((\<forall>a \<in> set xs. \<forall>b \<in> set xs. is_dup ops tol a b \<longrightarrow> is_dup ops tol b a) \<and>
      (\<forall>a \<in> set xs. \<forall>b \<in> set xs. \<forall>c \<in> set xs.
         is_dup ops tol a b \<and> is_dup ops tol b c \<longrightarrow> is_dup ops tol a c))"

section \<open>A number type and collaborators for the examples\<close>

text \<open>
  The real numbers with exact arithmetic and one NaN: comparisons with NaN are
  false, an operation on NaN gives NaN, and so does a division by zero. The
  conversion to \<^verbatim>\<open>int\<close> truncates towards zero.
\<close>

datatype xreal = NaN | Fin real

fun x_lt :: "xreal \<Rightarrow> xreal \<Rightarrow> bool" where
  "x_lt (Fin a) (Fin b) = (a < b)"
| "x_lt _ _ = False"

fun x_le :: "xreal \<Rightarrow> xreal \<Rightarrow> bool" where
  "x_le (Fin a) (Fin b) = (a \<le> b)"
| "x_le _ _ = False"

fun x_lift1 :: "(real \<Rightarrow> real) \<Rightarrow> xreal \<Rightarrow> xreal" where
  "x_lift1 g (Fin a) = Fin (g a)"
| "x_lift1 g NaN = NaN"

fun x_lift2 :: "(real \<Rightarrow> real \<Rightarrow> real) \<Rightarrow> xreal \<Rightarrow> xreal \<Rightarrow> xreal" where
  "x_lift2 g (Fin a) (Fin b) = Fin (g a b)"
| "x_lift2 g _ _ = NaN"

fun x_div :: "xreal \<Rightarrow> xreal \<Rightarrow> xreal" where
  "x_div (Fin a) (Fin b) = (if b = 0 then NaN else Fin (a / b))"
| "x_div _ _ = NaN"

fun x_to_int :: "xreal \<Rightarrow> int" where
  "x_to_int (Fin a) = (if 0 \<le> a then \<lfloor>a\<rfloor> else \<lceil>a\<rceil>)"
| "x_to_int NaN = 0"

definition exact_ops :: "xreal real_ops" where
  "exact_ops =
     \<lparr>r_of_int = (\<lambda>i. Fin (of_int i)), r_lt = x_lt, r_le = x_le,
      r_sub = x_lift2 (\<lambda>a b. a - b), r_mul = x_lift2 (\<lambda>a b. a * b), r_div = x_div,
      r_sin = x_lift1 sin, r_abs = x_lift1 abs, r_isnan = (\<lambda>a. a = NaN), quiet_NaN = NaN,
      two_pi = Fin (2 * pi), half = Fin (1 / 2),
      MY_FLOOR = x_lift1 (\<lambda>a. of_int \<lfloor>a\<rfloor>), r_to_int = x_to_int,
      r_norm = (\<lambda>v. x_lift2 (\<lambda>a b. sqrt (a\<^sup>2 + b\<^sup>2)) (fst v) (snd v))\<rparr>"

text \<open>
  Collaborators for the examples. The oracle reports the given status everywhere and
  takes \<^verbatim>\<open>rc\<close> for the final polar angle and for \<open>lambda\<close>, and \<^verbatim>\<open>log_abs_d\<close>
  for the final azimuth. The solver evaluates the residual once and leaves the point
  where it is. The nearest neighbour is found by a scan, the sort is an insertion
  sort.
\<close>

definition ex_calc_ray ::
  "RayStatus \<Rightarrow> (xreal, unit) ForwardRayTracingParams \<Rightarrow> (xreal, unit) ForwardRayTracing" where
  "ex_calc_ray st p =
     \<lparr>ray_status = st, theta_f = rc p, phi_f = log_abs_d p, ray_lambda = rc p,
      ray_eta = Fin 0,
      to_result = \<lparr>res_rc = rc p, res_log_abs_d = log_abs_d p, res_d_sign = d_sign p,
                   res_rest = ()\<rparr>\<rparr>"

definition ex_status_str :: "RayStatus \<Rightarrow> string" where
  "ex_status_str st =
     (case st of NORMAL \<Rightarrow> ''NORMAL'' | CONFINED \<Rightarrow> ''CONFINED''
      | ETA_OUT_OF_RANGE \<Rightarrow> ''ETA_OUT_OF_RANGE'' | THETA_OUT_OF_RANGE \<Rightarrow> ''THETA_OUT_OF_RANGE''
      | ARGUMENT_ERROR \<Rightarrow> ''ARGUMENT_ERROR'' | UNKOWN_ERROR \<Rightarrow> ''UNKOWN_ERROR'')"

definition sq_dist :: "nat \<times> nat \<Rightarrow> nat \<times> nat \<Rightarrow> int" where
  "sq_dist p q = (int (fst p) - int (fst q))\<^sup>2 + (int (snd p) - int (snd q))\<^sup>2"

definition ex_nearest :: "(nat \<times> nat) list \<Rightarrow> nat \<times> nat \<Rightarrow> nat \<times> nat" where
  "ex_nearest pts p =
     (case pts of [] \<Rightarrow> p
      | q # qs \<Rightarrow> fold (\<lambda>r best. if sq_dist p r < sq_dist p best then r else best) qs q)"

fun ex_insert :: "(nat \<Rightarrow> nat \<Rightarrow> bool) \<Rightarrow> nat \<Rightarrow> nat list \<Rightarrow> nat list" where
  "ex_insert lt x [] = [x]"
| "ex_insert lt x (y # ys) = (if lt y x then y # ex_insert lt x ys else x # y # ys)"

definition ex_sort :: "(nat \<Rightarrow> nat \<Rightarrow> bool) \<Rightarrow> nat list \<Rightarrow> nat list" where
  "ex_sort lt xs = foldr (ex_insert lt) xs []"

definition ex_env :: "RayStatus \<Rightarrow> (xreal, unit, unit) env" where
  "ex_env st =
     \<lparr>rc_d_to_lambda_q = (\<lambda>p. p), calc_ray = ex_calc_ray st,
      get_from_cache = ex_calc_ray UNKOWN_ERROR
        \<lparr>rc = NaN, log_abs_d = NaN, d_sign = POSITIVE, print_args_error = False,
         params_rest = ()\<rparr>,
      broyden_df = (\<lambda>F x s. (x, snd (F x s))),
      default_result = \<lparr>res_rc = Fin 0, res_log_abs_d = Fin 0, res_d_sign = POSITIVE,
                        res_rest = ()\<rparr>,
      ray_status_to_str = ex_status_str, fmt_real = (\<lambda>a. ''?''),
      rtree_nearest = ex_nearest, std_sort = ex_sort\<rparr>"

definition ex_params :: "real \<Rightarrow> real \<Rightarrow> (xreal, unit) ForwardRayTracingParams" where
  "ex_params a b =
     \<lparr>rc = Fin a, log_abs_d = Fin b, d_sign = POSITIVE, print_args_error = False,
      params_rest = ()\<rparr>"

text \<open>A refined root at \<open>(a, b)\<close>, for the examples.\<close>

definition ex_result :: "real \<Rightarrow> real \<Rightarrow> (xreal, unit) ForwardRayTracingResult" where
  "ex_result a b =
     \<lparr>res_rc = Fin a, res_log_abs_d = Fin b, res_d_sign = POSITIVE, res_rest = ()\<rparr>"

section \<open>Double precision\<close>

text \<open>
  The number type \<^verbatim>\<open>double\<close>: IEEE 754 binary64 with rounding to nearest, ties to
  even. A finite value is the real number it denotes (the two zeros are not
  distinguished). An operation computes the exact result and rounds it to 53
  significant bits, with the exponent of the last place no lower than \<open>-1074\<close>; a
  rounded magnitude of \<open>2 ^ 1024\<close> or more is an infinity. \<^verbatim>\<open>sin\<close> and \<^verbatim>\<open>sqrt\<close> are
  taken as correctly rounded, \<^verbatim>\<open>MY_FLOOR<double>::convert\<close> as \<^verbatim>\<open>floor\<close>, and the norm
  of a vector as the square root of the sum of the squares. The constant
  \<^verbatim>\<open>two_pi<double>()\<close> is the double nearest to \<open>2 * pi\<close>, \<open>7074237752028440 / 2 ^ 50\<close>.
\<close>

text \<open>Rounding to the nearest integer, a tie to the even one.\<close>

definition round_even :: "real \<Rightarrow> int" where
  "round_even y =
     (let f = \<lfloor>y\<rfloor>; r = y - of_int f
      in if r < 1 / 2 then f else if 1 / 2 < r then f + 1 else if even f then f else f + 1)"

text \<open>
  The exponent of the unit in the last place at \<open>x\<close>: 52 below the exponent of \<open>x\<close>,
  and \<open>-1074\<close> for a subnormal \<open>x\<close>.
\<close>

definition b64_ulp_exponent :: "real \<Rightarrow> int" where
  "b64_ulp_exponent x = max \<lfloor>log 2 \<bar>x\<bar>\<rfloor> (- 1022) - 52"

text \<open>The multiple of the unit in the last place nearest to \<open>x\<close>.\<close>

definition b64_round :: "real \<Rightarrow> real" where
  "b64_round x =
     (if x = 0 then 0
      else of_int (round_even (x / 2 powi b64_ulp_exponent x)) * 2 powi b64_ulp_exponent x)"

datatype binary64 = B_NaN | B_Inf Sign | B_Fin real

text \<open>The double an exact result rounds to.\<close>

definition b64_of_real :: "real \<Rightarrow> binary64" where
  "b64_of_real x =
     (if 2 ^ 1024 \<le> \<bar>b64_round x\<bar> then B_Inf (if x < 0 then NEGATIVE else POSITIVE)
      else B_Fin (b64_round x))"

text \<open>
  The operations on doubles. A division of a non-zero number by zero gives the
  infinity of the sign of the dividend.
\<close>

fun flip_sign :: "Sign \<Rightarrow> Sign" where
  "flip_sign POSITIVE = NEGATIVE"
| "flip_sign NEGATIVE = POSITIVE"

fun b_neg :: "binary64 \<Rightarrow> binary64" where
  "b_neg (B_Fin a) = B_Fin (- a)"
| "b_neg (B_Inf s) = B_Inf (flip_sign s)"
| "b_neg B_NaN = B_NaN"

fun b_lt :: "binary64 \<Rightarrow> binary64 \<Rightarrow> bool" where
  "b_lt (B_Fin a) (B_Fin b) = (a < b)"
| "b_lt (B_Fin a) (B_Inf s) = (s = POSITIVE)"
| "b_lt (B_Inf s) (B_Fin b) = (s = NEGATIVE)"
| "b_lt (B_Inf s) (B_Inf t) = (s = NEGATIVE \<and> t = POSITIVE)"
| "b_lt _ _ = False"

fun b_le :: "binary64 \<Rightarrow> binary64 \<Rightarrow> bool" where
  "b_le (B_Fin a) (B_Fin b) = (a \<le> b)"
| "b_le (B_Fin a) (B_Inf s) = (s = POSITIVE)"
| "b_le (B_Inf s) (B_Fin b) = (s = NEGATIVE)"
| "b_le (B_Inf s) (B_Inf t) = (s = NEGATIVE \<or> t = POSITIVE)"
| "b_le _ _ = False"

fun b_add :: "binary64 \<Rightarrow> binary64 \<Rightarrow> binary64" where
  "b_add (B_Fin a) (B_Fin b) = b64_of_real (a + b)"
| "b_add (B_Fin a) (B_Inf s) = B_Inf s"
| "b_add (B_Inf s) (B_Fin b) = B_Inf s"
| "b_add (B_Inf s) (B_Inf t) = (if s = t then B_Inf s else B_NaN)"
| "b_add _ _ = B_NaN"

definition b_sub :: "binary64 \<Rightarrow> binary64 \<Rightarrow> binary64" where
  "b_sub x y = b_add x (b_neg y)"

fun b_mul :: "binary64 \<Rightarrow> binary64 \<Rightarrow> binary64" where
  "b_mul (B_Fin a) (B_Fin b) = b64_of_real (a * b)"
| "b_mul (B_Fin a) (B_Inf s) =
     (if a = 0 then B_NaN else B_Inf (if a < 0 then flip_sign s else s))"
| "b_mul (B_Inf s) (B_Fin b) =
     (if b = 0 then B_NaN else B_Inf (if b < 0 then flip_sign s else s))"
| "b_mul (B_Inf s) (B_Inf t) = B_Inf (if s = t then POSITIVE else NEGATIVE)"
| "b_mul _ _ = B_NaN"

fun b_div :: "binary64 \<Rightarrow> binary64 \<Rightarrow> binary64" where
  "b_div (B_Fin a) (B_Fin b) =
     (if b = 0 then (if a = 0 then B_NaN else B_Inf (if a < 0 then NEGATIVE else POSITIVE))
      else b64_of_real (a / b))"
| "b_div (B_Fin a) (B_Inf s) = B_Fin 0"
| "b_div (B_Inf s) (B_Fin b) = B_Inf (if b < 0 then flip_sign s else s)"
| "b_div _ _ = B_NaN"

fun b_floor :: "binary64 \<Rightarrow> binary64" where
  "b_floor (B_Fin a) = B_Fin (of_int \<lfloor>a\<rfloor>)"
| "b_floor x = x"

fun b_sin :: "binary64 \<Rightarrow> binary64" where
  "b_sin (B_Fin a) = b64_of_real (sin a)"
| "b_sin _ = B_NaN"

fun b_sqrt :: "binary64 \<Rightarrow> binary64" where
  "b_sqrt (B_Fin a) = (if a < 0 then B_NaN else b64_of_real (sqrt a))"
| "b_sqrt (B_Inf s) = (if s = POSITIVE then B_Inf POSITIVE else B_NaN)"
| "b_sqrt B_NaN = B_NaN"

fun b_abs :: "binary64 \<Rightarrow> binary64" where
  "b_abs (B_Fin a) = B_Fin \<bar>a\<bar>"
| "b_abs (B_Inf s) = B_Inf POSITIVE"
| "b_abs B_NaN = B_NaN"

fun b_to_int :: "binary64 \<Rightarrow> int" where
  "b_to_int (B_Fin a) = (if 0 \<le> a then \<lfloor>a\<rfloor> else \<lceil>a\<rceil>)"
| "b_to_int _ = 0"

text \<open>The value of \<^verbatim>\<open>two_pi<double>()\<close>.\<close>

definition b64_two_pi :: real where
  "b64_two_pi = 7074237752028440 / 2 ^ 50"

text \<open>A small negative angle, \<open>- 2 ^ (- 70)\<close>.\<close>

definition tiny_angle :: real where
  "tiny_angle = - (1 / 2 ^ 70)"

text \<open>A large angle, \<open>58668 * 2 ^ 37\<close>.\<close>

definition large_angle :: real where
  "large_angle = 8063268522295296"

definition binary64_ops :: "binary64 real_ops" where
  "binary64_ops =
     \<lparr>r_of_int = (\<lambda>i. b64_of_real (of_int i)), r_lt = b_lt, r_le = b_le, r_sub = b_sub,
      r_mul = b_mul, r_div = b_div, r_sin = b_sin, r_abs = b_abs,
      r_isnan = (\<lambda>a. a = B_NaN), quiet_NaN = B_NaN,
      two_pi = B_Fin b64_two_pi, half = B_Fin (1 / 2),
      MY_FLOOR = b_floor, r_to_int = b_to_int,
      r_norm = (\<lambda>v. b_sqrt (b_add (b_mul (fst v) (fst v)) (b_mul (snd v) (snd v))))\<rparr>"

text \<open>A refined root at \<open>(a, b)\<close> in double precision.\<close>

definition b_result :: "real \<Rightarrow> real \<Rightarrow> (binary64, unit) ForwardRayTracingResult" where
  "b_result a b =
     \<lparr>res_rc = B_Fin a, res_log_abs_d = B_Fin b, res_d_sign = POSITIVE, res_rest = ()\<rparr>"

section \<open>Evaluating the examples\<close>

lemma exact_ops_simps:
  "r_of_int exact_ops i = Fin (of_int i)" "r_lt exact_ops = x_lt" "r_le exact_ops = x_le"
  "r_sub exact_ops = x_lift2 (\<lambda>a b. a - b)" "r_mul exact_ops = x_lift2 (\<lambda>a b. a * b)"
  "r_div exact_ops = x_div" "r_sin exact_ops = x_lift1 sin" "r_abs exact_ops = x_lift1 abs"
  "r_isnan exact_ops a = (a = NaN)" "quiet_NaN exact_ops = NaN" "two_pi exact_ops = Fin (2 * pi)"
  "half exact_ops = Fin (1 / 2)" "MY_FLOOR exact_ops = x_lift1 (\<lambda>a. of_int \<lfloor>a\<rfloor>)"
  "r_to_int exact_ops = x_to_int"
  "r_norm exact_ops v = x_lift2 (\<lambda>a b. sqrt (a\<^sup>2 + b\<^sup>2)) (fst v) (snd v)"
  by (simp_all add: exact_ops_def)

lemma ex_env_simps:
  "rc_d_to_lambda_q (ex_env st) p = p" "calc_ray (ex_env st) = ex_calc_ray st"
  "broyden_df (ex_env st) F x s = (x, snd (F x s))"
  "ray_status_to_str (ex_env st) = ex_status_str" "fmt_real (ex_env st) a = ''?''"
  "rtree_nearest (ex_env st) = ex_nearest" "std_sort (ex_env st) = ex_sort"
  by (simp_all add: ex_env_def)

lemma upt_1_2: "[1..<2] = [1]"
  by (simp add: upt_rec)

lemma wrap_phi_exact_0: "wrap_phi exact_ops (Fin 0) = Fin 0"
  by (simp add: wrap_phi_def exact_ops_simps)

lemma sample_grid_confined:
  "sample_grid exact_ops (ex_env CONFINED) (ex_params 0 0) (Fin 0) (Fin 0)
     [Fin 0, Fin 1] [Fin 0, Fin 1] =
   replicate 2 (replicate 2 \<lparr>c_theta = NaN, c_phi = NaN, c_delta_theta = NaN,
     c_delta_phi = NaN, c_lambda = NaN, c_eta = NaN\<rparr>)"
  by (simp add: sample_grid_def sample_cell_def exact_ops_simps ex_env_simps ex_calc_ray_def
      Let_def numeral_2_eq_2)

lemma sweep_confined:
  "sweep_rc_d exact_ops (ex_env CONFINED) (ex_params 0 0) (Fin 0) (Fin 0)
     [Fin 0, Fin 1] [Fin 0, Fin 1] cutoff tol =
   Some \<lparr>sw_theta = [[NaN, NaN], [NaN, NaN]], sw_phi = [[NaN, NaN], [NaN, NaN]],
         sw_lambda = [[NaN, NaN], [NaN, NaN]], sw_eta = [[NaN, NaN], [NaN, NaN]],
         sw_delta_theta = [[NaN, NaN], [NaN, NaN]], sw_delta_phi = [[NaN, NaN], [NaN, NaN]],
         sw_theta_roots = [], sw_phi_roots = [], sw_theta_roots_closest = [],
         sw_results = []\<rparr>"
  by (simp add: sweep_rc_d_def wrap_phi_exact_0 sample_grid_confined Let_def
      theta_roots_index_def phi_roots_index_def interior_def upt_1_2 theta_test_def
      phi_test_def coeff_def exact_ops_simps numeral_2_eq_2)

section \<open>Invalid rays\<close>

lemma sweep_matrices:
  assumes "sweep_rc_d ops e params theta_o phi_o rc_list lgd_list cutoff tol = Some r"
  defines "grid \<equiv> sample_grid ops e params theta_o (wrap_phi ops phi_o) rc_list lgd_list"
  shows "sw_theta r = map (map c_theta) grid" "sw_phi r = map (map c_phi) grid"
    "sw_lambda r = map (map c_lambda) grid" "sw_eta r = map (map c_eta) grid"
    "sw_delta_theta r = map (map c_delta_theta) grid"
    "sw_delta_phi r = map (map c_delta_phi) grid"
  using assms(1) unfolding sweep_rc_d_def grid_def Let_def
  by (auto split: if_splits)

lemma grid_cell:
  "i < length lgd_list \<Longrightarrow> j < length rc_list \<Longrightarrow>
   coeff (map (map g) (sample_grid ops e params theta_o phi_o rc_list lgd_list)) i j =
   g (sample_cell ops e params theta_o phi_o (rc_list ! j) (lgd_list ! i))"
  by (simp add: coeff_def sample_grid_def)

lemma sample_cell_invalid:
  "ray_status (calc_ray e (rc_d_to_lambda_q e (params\<lparr>rc := a, log_abs_d := b\<rparr>))) \<noteq> NORMAL \<Longrightarrow>
   sample_cell ops e params theta_o phi_o a b =
     \<lparr>c_theta = quiet_NaN ops, c_phi = quiet_NaN ops,
      c_delta_theta = quiet_NaN ops, c_delta_phi = quiet_NaN ops,
      c_lambda = quiet_NaN ops, c_eta = quiet_NaN ops\<rparr>"
  by (simp add: sample_cell_def Let_def)

lemma sweep_invalid_cell:
  assumes s: "sweep_rc_d ops e params theta_o phi_o rc_list lgd_list cutoff tol = Some r"
    and i: "i < length lgd_list" and j: "j < length rc_list"
    and n: "ray_status (calc_ray e (rc_d_to_lambda_q e
      (params\<lparr>rc := rc_list ! j, log_abs_d := lgd_list ! i\<rparr>))) \<noteq> NORMAL"
  shows "coeff (sw_theta r) i j = quiet_NaN ops \<and> coeff (sw_phi r) i j = quiet_NaN ops \<and>
          coeff (sw_delta_theta r) i j = quiet_NaN ops \<and>
          coeff (sw_delta_phi r) i j = quiet_NaN ops \<and>
          coeff (sw_lambda r) i j = quiet_NaN ops \<and> coeff (sw_eta r) i j = quiet_NaN ops"
  by (simp add: sweep_matrices[OF s] grid_cell[OF i j] sample_cell_invalid[OF n])

lemma residual_invalid:
  "ray_status (calc_ray e (rc_d_to_lambda_q e ((fst st)\<lparr>rc := fst x, log_abs_d := snd x\<rparr>))) \<noteq> NORMAL
    \<Longrightarrow> fst (RootFunctor_call ops e f x st) = (quiet_NaN ops, quiet_NaN ops)"
  by (simp add: RootFunctor_call_def Let_def)

text \<open>
  Claim C5. Where the oracle reports a status other than \<^verbatim>\<open>NORMAL\<close> at the point
  \<open>x\<close>, the residual function returns the vector whose two components are the quiet
  NaN of the number type (it is a total function: nothing is thrown). And in the
  result of a sweep, the cell \<open>(i, j)\<close> of a grid point at which the oracle reports a
  status other than \<^verbatim>\<open>NORMAL\<close> holds that NaN in each of the six matrices
  \<open>theta\<close>, \<open>phi\<close>, \<open>delta_theta\<close>, \<open>delta_phi\<close>, \<open>lambda\<close> and \<open>eta\<close>.
\<close>

theorem invalid_ray_gives_NaN:
  "(ray_status (calc_ray e (rc_d_to_lambda_q e ((fst st)\<lparr>rc := fst x, log_abs_d := snd x\<rparr>)))
      \<noteq> NORMAL
      \<longrightarrow> fst (RootFunctor_call ops e f x st) = (quiet_NaN ops, quiet_NaN ops)) \<and>
   (sweep_rc_d ops e params theta_o phi_o rc_list lgd_list cutoff tol = Some r \<and>
    i < length lgd_list \<and> j < length rc_list \<and>
    ray_status (calc_ray e (rc_d_to_lambda_q e
      (params\<lparr>rc := rc_list ! j, log_abs_d := lgd_list ! i\<rparr>))) \<noteq> NORMAL
      \<longrightarrow> coeff (sw_theta r) i j = quiet_NaN ops \<and> coeff (sw_phi r) i j = quiet_NaN ops \<and>
          coeff (sw_delta_theta r) i j = quiet_NaN ops \<and>
          coeff (sw_delta_phi r) i j = quiet_NaN ops \<and>
          coeff (sw_lambda r) i j = quiet_NaN ops \<and> coeff (sw_eta r) i j = quiet_NaN ops)"
proof (rule conjI)
  show "ray_status (calc_ray e (rc_d_to_lambda_q e ((fst st)\<lparr>rc := fst x, log_abs_d := snd x\<rparr>)))
      \<noteq> NORMAL
      \<longrightarrow> fst (RootFunctor_call ops e f x st) = (quiet_NaN ops, quiet_NaN ops)"
    by (simp add: residual_invalid)
qed (intro impI, elim conjE, rule sweep_invalid_cell)

theorem invalid_ray_gives_NaN_witness:
  "fst (RootFunctor_call exact_ops (ex_env CONFINED) (RootFunctor_any (Fin 0) (Fin 0))
     (Fin 1, Fin 2) (ex_params 0 0, get_from_cache (ex_env CONFINED))) = (NaN, NaN) \<and>
   (\<exists>r. sweep_rc_d exact_ops (ex_env CONFINED) (ex_params 0 0) (Fin 0) (Fin 0)
           [Fin 0, Fin 1] [Fin 0, Fin 1] 1 (Fin 1) = Some r \<and>
        coeff (sw_theta r) 1 1 = NaN \<and> coeff (sw_phi r) 1 1 = NaN \<and>
        coeff (sw_delta_theta r) 1 1 = NaN \<and> coeff (sw_delta_phi r) 1 1 = NaN \<and>
        coeff (sw_lambda r) 1 1 = NaN \<and> coeff (sw_eta r) 1 1 = NaN)"
  using invalid_ray_gives_NaN [where ops = exact_ops and e = "ex_env CONFINED"
      and f = "RootFunctor_any (Fin 0) (Fin 0)" and x = "(Fin 1, Fin 2)"
      and st = "(ex_params 0 0, get_from_cache (ex_env CONFINED))"
      and params = "ex_params 0 0" and theta_o = "Fin 0" and phi_o = "Fin 0"
      and rc_list = "[Fin 0, Fin 1]" and lgd_list = "[Fin 0, Fin 1]" and cutoff = 1
      and tol = "Fin 1" and i = 1 and j = 1
      and r = "\<lparr>sw_theta = [[NaN, NaN], [NaN, NaN]], sw_phi = [[NaN, NaN], [NaN, NaN]],
         sw_lambda = [[NaN, NaN], [NaN, NaN]], sw_eta = [[NaN, NaN], [NaN, NaN]],
         sw_delta_theta = [[NaN, NaN], [NaN, NaN]], sw_delta_phi = [[NaN, NaN], [NaN, NaN]],
         sw_theta_roots = [], sw_phi_roots = [], sw_theta_roots_closest = [],
         sw_results = []\<rparr>"]
  by (simp add: sweep_confined ex_env_simps ex_calc_ray_def exact_ops_simps)

section \<open>Batch evaluation\<close>

lemma fold_update_length:
  "length (fold (\<lambda>i res. res[i := g i]) is res) = length res"
  by (induction "is" arbitrary: res) simp_all

lemma fold_update_nth:
  "k < length res \<Longrightarrow>
   fold (\<lambda>i res. res[i := g i]) is res ! k = (if k \<in> set is then g k else res ! k)"
proof (induction "is" arbitrary: res)
  case Nil
  then show ?case by simp
next
  case (Cons a "is")
  then show ?case by (auto simp: nth_list_update)
qed

lemma batch_body_length: "length (batch_body e ps r res) = length res"
  by (simp add: batch_body_def fold_update_length)

lemma batch_body_nth:
  "k < length res \<Longrightarrow>
   batch_body e ps r res ! k =
     (if k \<in> {fst r..<snd r} then to_result (calc_ray e (ps ! k)) else res ! k)"
  by (simp add: batch_body_def fold_update_nth)

lemma fold_batch_length: "length (fold (batch_body e ps) ranges res) = length res"
  by (induction ranges arbitrary: res) (simp_all add: batch_body_length)

lemma fold_batch_nth:
  "k < length res \<Longrightarrow>
   fold (batch_body e ps) ranges res ! k =
     (if k \<in> (\<Union>r \<in> set ranges. {fst r..<snd r}) then to_result (calc_ray e (ps ! k))
      else res ! k)"
proof (induction ranges arbitrary: res)
  case Nil
  then show ?case by simp
next
  case (Cons r ranges)
  have "k < length (batch_body e ps r res)" using Cons.prems by (simp add: batch_body_length)
  from Cons.IH[OF this] show ?case using Cons.prems
    by (auto simp: batch_body_nth)
qed

text \<open>
  Claim C9. Whatever sub-ranges the parallel loop hands to its body, and in whatever
  order, as long as they cover the indices of the input: \<^verbatim>\<open>calc_ray_batch\<close> returns
  a list of the length of its input whose \<open>i\<close>-th element is the evaluation of the
  \<open>i\<close>-th input.
\<close>

theorem calc_ray_batch_order:
  "covers ranges (length params_list) \<longrightarrow>
   length (calc_ray_batch e ranges params_list) = length params_list \<and>
   (\<forall>i < length params_list.
      calc_ray_batch e ranges params_list ! i = Utils_calc_ray e (params_list ! i))"
  by (simp add: calc_ray_batch_def fold_batch_length fold_batch_nth covers_def Utils_calc_ray_def)

theorem calc_ray_batch_order_witness:
  "covers [(2, 3), (0, 2)] (length [ex_params 1 2, ex_params 3 4, ex_params 5 6]) \<and>
   calc_ray_batch (ex_env NORMAL) [(2, 3), (0, 2)] [ex_params 1 2, ex_params 3 4, ex_params 5 6] ! 2
     = Utils_calc_ray (ex_env NORMAL) (ex_params 5 6) \<and>
   length (calc_ray_batch (ex_env NORMAL) [(2, 3), (0, 2)]
     [ex_params 1 2, ex_params 3 4, ex_params 5 6]) = 3"
proof -
  let ?ps = "[ex_params 1 2, ex_params 3 4, ex_params 5 6]"
  have c: "covers [(2, 3), (0, 2)] (length ?ps)"
    unfolding covers_def by auto
  with calc_ray_batch_order [of "[(2, 3), (0, 2)]" ?ps "ex_env NORMAL"]
  have l: "length (calc_ray_batch (ex_env NORMAL) [(2, 3), (0, 2)] ?ps) = length ?ps"
    and n: "\<forall>i < length ?ps. calc_ray_batch (ex_env NORMAL) [(2, 3), (0, 2)] ?ps ! i =
       Utils_calc_ray (ex_env NORMAL) (?ps ! i)"
    by blast+
  have "(2::nat) < length ?ps" by simp
  with n have "calc_ray_batch (ex_env NORMAL) [(2, 3), (0, 2)] ?ps ! 2 =
       Utils_calc_ray (ex_env NORMAL) (?ps ! 2)" by blast
  then show ?thesis using c l by simp
qed


section \<open>Root isolation\<close>

lemma set_interior:
  "(i, j) \<in> set (interior lgd_size rc_size) \<longleftrightarrow> 1 \<le> i \<and> i < lgd_size \<and> 1 \<le> j \<and> j < rc_size"
  by (auto simp: interior_def)

lemma set_theta_roots_index:
  "(i, j) \<in> set (theta_roots_index ops delta_theta lgd_size rc_size) \<longleftrightarrow>
   1 \<le> i \<and> i < lgd_size \<and> 1 \<le> j \<and> j < rc_size \<and> theta_test ops delta_theta i j"
  by (auto simp: theta_roots_index_def set_interior)

lemma set_phi_roots_index:
  "(i, j) \<in> set (phi_roots_index ops delta_phi lam lgd_size rc_size) \<longleftrightarrow>
   1 \<le> i \<and> i < lgd_size \<and> 1 \<le> j \<and> j < rc_size \<and> phi_test ops delta_phi lam i j"
  by (auto simp: phi_roots_index_def set_interior)

text \<open>
  Claim C3. An interior cell \<open>(i, j)\<close> (row and column at least 1) is in the list of
  theta candidates iff \<open>delta_theta\<close> is not NaN at the cell, at its left neighbour and
  at its upper neighbour, and one of the two products of signs is at most 0; it is in
  the list of phi candidates iff the same holds of \<open>delta_phi\<close> and, in addition,
  \<open>lambda\<close> is not NaN at the three cells and both products of its signs are
  positive. A candidate of either list is an interior cell with no NaN at the cell or
  at a neighbour the test reads.
\<close>

theorem root_isolation:
  "(1 \<le> i \<and> i < lgd_size \<and> 1 \<le> j \<and> j < rc_size \<longrightarrow>
     ((i, j) \<in> set (theta_roots_index ops delta_theta lgd_size rc_size) \<longleftrightarrow>
        \<not> r_isnan ops (coeff delta_theta i j) \<and> \<not> r_isnan ops (coeff delta_theta i (j - 1)) \<and>
        \<not> r_isnan ops (coeff delta_theta (i - 1) j) \<and>
        (sgn_r ops (coeff delta_theta i j) * sgn_r ops (coeff delta_theta i (j - 1)) \<le> 0 \<or>
         sgn_r ops (coeff delta_theta i j) * sgn_r ops (coeff delta_theta (i - 1) j) \<le> 0)) \<and>
     ((i, j) \<in> set (phi_roots_index ops delta_phi lam lgd_size rc_size) \<longleftrightarrow>
        \<not> r_isnan ops (coeff delta_phi i j) \<and> \<not> r_isnan ops (coeff delta_phi i (j - 1)) \<and>
        \<not> r_isnan ops (coeff delta_phi (i - 1) j) \<and>
        (sgn_r ops (coeff delta_phi i j) * sgn_r ops (coeff delta_phi i (j - 1)) \<le> 0 \<or>
         sgn_r ops (coeff delta_phi i j) * sgn_r ops (coeff delta_phi (i - 1) j) \<le> 0) \<and>
        \<not> r_isnan ops (coeff lam i j) \<and> \<not> r_isnan ops (coeff lam i (j - 1)) \<and>
        \<not> r_isnan ops (coeff lam (i - 1) j) \<and>
        0 < sgn_r ops (coeff lam i j) * sgn_r ops (coeff lam i (j - 1)) \<and>
        0 < sgn_r ops (coeff lam i j) * sgn_r ops (coeff lam (i - 1) j))) \<and>
   ((i, j) \<in> set (theta_roots_index ops delta_theta lgd_size rc_size) \<longrightarrow>
      1 \<le> i \<and> i < lgd_size \<and> 1 \<le> j \<and> j < rc_size \<and>
      \<not> r_isnan ops (coeff delta_theta i j) \<and> \<not> r_isnan ops (coeff delta_theta i (j - 1)) \<and>
      \<not> r_isnan ops (coeff delta_theta (i - 1) j)) \<and>
   ((i, j) \<in> set (phi_roots_index ops delta_phi lam lgd_size rc_size) \<longrightarrow>
      1 \<le> i \<and> i < lgd_size \<and> 1 \<le> j \<and> j < rc_size \<and>
      \<not> r_isnan ops (coeff delta_phi i j) \<and> \<not> r_isnan ops (coeff delta_phi i (j - 1)) \<and>
      \<not> r_isnan ops (coeff delta_phi (i - 1) j) \<and>
      \<not> r_isnan ops (coeff lam i j) \<and> \<not> r_isnan ops (coeff lam i (j - 1)) \<and>
      \<not> r_isnan ops (coeff lam (i - 1) j))"
  unfolding set_theta_roots_index set_phi_roots_index theta_test_def phi_test_def Let_def
  by blast

theorem root_isolation_witness:
  "(1, 1) \<in> set (theta_roots_index exact_ops [[Fin (-1), Fin 1], [Fin (-1), Fin 1]] 2 2) \<and>
   (1, 1) \<in> set (phi_roots_index exact_ops [[Fin 1, Fin 1], [Fin (-1), Fin 1]]
                   [[Fin 2, Fin 2], [Fin 2, Fin 2]] 2 2) \<and>
   (1, 1) \<notin> set (theta_roots_index exact_ops [[Fin (-1), NaN], [Fin (-1), Fin 1]] 2 2)"
  using root_isolation [of 1 2 1 2 exact_ops "[[Fin (-1), Fin 1], [Fin (-1), Fin 1]]"
      "[[Fin 1, Fin 1], [Fin (-1), Fin 1]]" "[[Fin 2, Fin 2], [Fin 2, Fin 2]]"]
    root_isolation [of 1 2 1 2 exact_ops "[[Fin (-1), NaN], [Fin (-1), Fin 1]]"
      "[[Fin 1, Fin 1], [Fin (-1), Fin 1]]" "[[Fin 2, Fin 2], [Fin 2, Fin 2]]"]
  by (simp add: coeff_def sgn_r_def exact_ops_simps)


section \<open>Sweeps that return early\<close>

lemma grid_dims:
  "has_dims (map (map g) (sample_grid ops e params theta_o phi_o rc_list lgd_list))
     (length lgd_list) (length rc_list)"
  by (simp add: has_dims_def sample_grid_def list_all_iff)

lemma sweep_early:
  assumes "sweep_phi_index ops e params theta_o phi_o rc_list lgd_list = []"
  defines "grid \<equiv> sample_grid ops e params theta_o (wrap_phi ops phi_o) rc_list lgd_list"
  shows "sweep_rc_d ops e params theta_o phi_o rc_list lgd_list cutoff tol =
    Some \<lparr>sw_theta = map (map c_theta) grid, sw_phi = map (map c_phi) grid,
          sw_lambda = map (map c_lambda) grid, sw_eta = map (map c_eta) grid,
          sw_delta_theta = map (map c_delta_theta) grid,
          sw_delta_phi = map (map c_delta_phi) grid,
          sw_theta_roots = map (root_row rc_list lgd_list)
            (sweep_theta_index ops e params theta_o phi_o rc_list lgd_list),
          sw_phi_roots = [], sw_theta_roots_closest = [], sw_results = []\<rparr>"
  using assms(1) unfolding sweep_rc_d_def sweep_phi_index_def sweep_theta_index_def grid_def
  by (simp add: Let_def)

lemma confined_no_theta:
  assumes nan: "r_isnan ops (quiet_NaN ops)"
    and st: "\<forall>i<length lgd_list. \<forall>j<length rc_list.
        ray_status (calc_ray e (rc_d_to_lambda_q e
          (params\<lparr>rc := rc_list ! j, log_abs_d := lgd_list ! i\<rparr>))) \<noteq> NORMAL"
  shows "sweep_theta_index ops e params theta_o phi_o rc_list lgd_list = []"
proof -
  have "\<not> theta_test ops (map (map c_delta_theta)
          (sample_grid ops e params theta_o (wrap_phi ops phi_o) rc_list lgd_list)) i j"
    if "(i, j) \<in> set (interior (length lgd_list) (length rc_list))" for i j
  proof -
    from that have i: "i < length lgd_list" and j: "j < length rc_list"
      by (simp_all add: set_interior)
    from st i j have n: "ray_status (calc_ray e (rc_d_to_lambda_q e
          (params\<lparr>rc := rc_list ! j, log_abs_d := lgd_list ! i\<rparr>))) \<noteq> NORMAL"
      by blast
    show ?thesis
      using nan
      by (simp add: theta_test_def Let_def grid_cell[OF i j] sample_cell_invalid[OF n])
  qed
  then show ?thesis
    by (auto simp: sweep_theta_index_def theta_roots_index_def filter_empty_conv)
qed

lemma confined_no_phi:
  assumes nan: "r_isnan ops (quiet_NaN ops)"
    and st: "\<forall>i<length lgd_list. \<forall>j<length rc_list.
        ray_status (calc_ray e (rc_d_to_lambda_q e
          (params\<lparr>rc := rc_list ! j, log_abs_d := lgd_list ! i\<rparr>))) \<noteq> NORMAL"
  shows "sweep_phi_index ops e params theta_o phi_o rc_list lgd_list = []"
proof -
  have "\<not> phi_test ops (map (map c_delta_phi)
          (sample_grid ops e params theta_o (wrap_phi ops phi_o) rc_list lgd_list))
          (map (map c_lambda)
          (sample_grid ops e params theta_o (wrap_phi ops phi_o) rc_list lgd_list)) i j"
    if "(i, j) \<in> set (interior (length lgd_list) (length rc_list))" for i j
  proof -
    from that have i: "i < length lgd_list" and j: "j < length rc_list"
      by (simp_all add: set_interior)
    from st i j have n: "ray_status (calc_ray e (rc_d_to_lambda_q e
          (params\<lparr>rc := rc_list ! j, log_abs_d := lgd_list ! i\<rparr>))) \<noteq> NORMAL"
      by blast
    show ?thesis
      using nan
      by (simp add: phi_test_def Let_def grid_cell[OF i j] sample_cell_invalid[OF n])
  qed
  then show ?thesis
    by (auto simp: sweep_phi_index_def phi_roots_index_def filter_empty_conv)
qed

lemma empty_sweep_1:
  assumes "sweep_theta_index ops e params theta_o phi_o rc_list lgd_list = []"
      "sweep_phi_index ops e params theta_o phi_o rc_list lgd_list = []"
  shows "\<exists>r. sweep_rc_d ops e params theta_o phi_o rc_list lgd_list cutoff tol = Some r \<and>
      empty_result r (length lgd_list) (length rc_list)"
  by (simp add: sweep_early[OF assms(2)] assms(1) grid_dims empty_result_def)

text \<open>
  Claim C6. A sweep that finds no theta candidate and no phi candidate returns an
  empty result: matrices of the dimensions of the grid, empty point lists and an
  empty result list. In particular, with a number type whose quiet NaN is a NaN and an
  oracle that reports \<^verbatim>\<open>CONFINED\<close> at every point of the grid, both candidate lists are empty and
  the sweep returns such a result.
\<close>

theorem empty_sweep:
  "(sweep_theta_index ops e params theta_o phi_o rc_list lgd_list = [] \<and>
    sweep_phi_index ops e params theta_o phi_o rc_list lgd_list = [] \<longrightarrow>
    (\<exists>r. sweep_rc_d ops e params theta_o phi_o rc_list lgd_list cutoff tol = Some r \<and>
      empty_result r (length lgd_list) (length rc_list))) \<and>
   (r_isnan ops (quiet_NaN ops) \<and> (\<forall>i<length lgd_list. \<forall>j<length rc_list.
        ray_status (calc_ray e (rc_d_to_lambda_q e
          (params\<lparr>rc := rc_list ! j, log_abs_d := lgd_list ! i\<rparr>))) = CONFINED) \<longrightarrow>
    sweep_theta_index ops e params theta_o phi_o rc_list lgd_list = [] \<and>
    sweep_phi_index ops e params theta_o phi_o rc_list lgd_list = [] \<and>
    (\<exists>r. sweep_rc_d ops e params theta_o phi_o rc_list lgd_list cutoff tol = Some r \<and>
      empty_result r (length lgd_list) (length rc_list)))"
proof (rule conjI)
  show "sweep_theta_index ops e params theta_o phi_o rc_list lgd_list = [] \<and>
    sweep_phi_index ops e params theta_o phi_o rc_list lgd_list = [] \<longrightarrow>
    (\<exists>r. sweep_rc_d ops e params theta_o phi_o rc_list lgd_list cutoff tol = Some r \<and>
      empty_result r (length lgd_list) (length rc_list))"
    by (intro impI, elim conjE, rule empty_sweep_1)
next
  show "r_isnan ops (quiet_NaN ops) \<and> (\<forall>i<length lgd_list. \<forall>j<length rc_list.
        ray_status (calc_ray e (rc_d_to_lambda_q e
          (params\<lparr>rc := rc_list ! j, log_abs_d := lgd_list ! i\<rparr>))) = CONFINED) \<longrightarrow>
    sweep_theta_index ops e params theta_o phi_o rc_list lgd_list = [] \<and>
    sweep_phi_index ops e params theta_o phi_o rc_list lgd_list = [] \<and>
    (\<exists>r. sweep_rc_d ops e params theta_o phi_o rc_list lgd_list cutoff tol = Some r \<and>
      empty_result r (length lgd_list) (length rc_list))"
  proof (intro impI, elim conjE)
    assume nan: "r_isnan ops (quiet_NaN ops)" and c: "\<forall>i<length lgd_list. \<forall>j<length rc_list.
        ray_status (calc_ray e (rc_d_to_lambda_q e
          (params\<lparr>rc := rc_list ! j, log_abs_d := lgd_list ! i\<rparr>))) = CONFINED"
    from c have st: "\<forall>i<length lgd_list. \<forall>j<length rc_list.
        ray_status (calc_ray e (rc_d_to_lambda_q e
          (params\<lparr>rc := rc_list ! j, log_abs_d := lgd_list ! i\<rparr>))) \<noteq> NORMAL" by simp
    have t: "sweep_theta_index ops e params theta_o phi_o rc_list lgd_list = []"
      by (rule confined_no_theta[OF nan st])
    have p: "sweep_phi_index ops e params theta_o phi_o rc_list lgd_list = []"
      by (rule confined_no_phi[OF nan st])
    show "sweep_theta_index ops e params theta_o phi_o rc_list lgd_list = [] \<and>
    sweep_phi_index ops e params theta_o phi_o rc_list lgd_list = [] \<and>
    (\<exists>r. sweep_rc_d ops e params theta_o phi_o rc_list lgd_list cutoff tol = Some r \<and>
      empty_result r (length lgd_list) (length rc_list))"
      by (intro conjI t p empty_sweep_1[OF t p])
  qed
qed


theorem empty_sweep_witness:
  "r_isnan exact_ops (quiet_NaN exact_ops) \<and>
   sweep_theta_index exact_ops (ex_env CONFINED) (ex_params 0 0) (Fin 0) (Fin 0)
     [Fin 0, Fin 1] [Fin 0, Fin 1] = [] \<and>
   sweep_phi_index exact_ops (ex_env CONFINED) (ex_params 0 0) (Fin 0) (Fin 0)
     [Fin 0, Fin 1] [Fin 0, Fin 1] = [] \<and>
   (\<exists>r. sweep_rc_d exact_ops (ex_env CONFINED) (ex_params 0 0) (Fin 0) (Fin 0)
          [Fin 0, Fin 1] [Fin 0, Fin 1] 1 (Fin 1) = Some r \<and> empty_result r 2 2)"
proof -
  have n: "r_isnan exact_ops (quiet_NaN exact_ops)"
    by (simp add: exact_ops_simps)
  have c: "\<forall>i<length [Fin 0, Fin 1]. \<forall>j<length [Fin 0, Fin 1].
        ray_status (calc_ray (ex_env CONFINED) (rc_d_to_lambda_q (ex_env CONFINED)
          ((ex_params 0 0)\<lparr>rc := [Fin 0, Fin 1] ! j, log_abs_d := [Fin 0, Fin 1] ! i\<rparr>))) =
        CONFINED"
    by (simp add: ex_env_simps ex_calc_ray_def)
  from n c empty_sweep [of exact_ops "ex_env CONFINED" "ex_params 0 0" "Fin 0" "Fin 0"
        "[Fin 0, Fin 1]" "[Fin 0, Fin 1]" 1 "Fin 1"]
  have "sweep_theta_index exact_ops (ex_env CONFINED) (ex_params 0 0) (Fin 0) (Fin 0)
     [Fin 0, Fin 1] [Fin 0, Fin 1] = [] \<and>
   sweep_phi_index exact_ops (ex_env CONFINED) (ex_params 0 0) (Fin 0) (Fin 0)
     [Fin 0, Fin 1] [Fin 0, Fin 1] = [] \<and>
   (\<exists>r. sweep_rc_d exact_ops (ex_env CONFINED) (ex_params 0 0) (Fin 0) (Fin 0)
          [Fin 0, Fin 1] [Fin 0, Fin 1] 1 (Fin 1) = Some r \<and>
        empty_result r (length [Fin 0, Fin 1]) (length [Fin 0, Fin 1]))"
    by blast
  then show ?thesis using n by (simp add: numeral_2_eq_2)
qed

lemma sample_grid_env:
  "sample_grid ops (e\<lparr>broyden_df := b, rtree_nearest := n, std_sort := s\<rparr>) =
   sample_grid ops e"
  by (simp add: sample_grid_def sample_cell_def fun_eq_iff)

lemma sweep_index_env:
  "sweep_theta_index ops (e\<lparr>broyden_df := b, rtree_nearest := n, std_sort := s\<rparr>) =
   sweep_theta_index ops e"
  "sweep_phi_index ops (e\<lparr>broyden_df := b, rtree_nearest := n, std_sort := s\<rparr>) =
   sweep_phi_index ops e"
  by (simp_all add: sweep_theta_index_def sweep_phi_index_def sample_grid_env fun_eq_iff)

text \<open>
  Claim C10. A sweep that finds a theta candidate and no phi candidate returns a
  result whose \<open>theta_roots\<close> has one row \<open>(rc, log_abs_d)\<close> per theta candidate,
  and whose \<open>phi_roots\<close>, \<open>theta_roots_closest\<close> and \<open>results\<close> are empty. The
  result is the same whatever the solver, the nearest neighbour query and the sort
  are: none of them is used.
\<close>

theorem theta_only_sweep:
  "sweep_theta_index ops e params theta_o phi_o rc_list lgd_list \<noteq> [] \<and>
   sweep_phi_index ops e params theta_o phi_o rc_list lgd_list = [] \<longrightarrow>
   (\<exists>r. sweep_rc_d ops e params theta_o phi_o rc_list lgd_list cutoff tol = Some r \<and>
      sw_theta_roots r =
        map (\<lambda>p. (rc_list ! snd p, lgd_list ! fst p))
          (sweep_theta_index ops e params theta_o phi_o rc_list lgd_list) \<and>
      length (sw_theta_roots r) =
        length (sweep_theta_index ops e params theta_o phi_o rc_list lgd_list) \<and>
      sw_theta_roots r \<noteq> [] \<and>
      sw_phi_roots r = [] \<and> sw_theta_roots_closest r = [] \<and> sw_results r = [] \<and>
      sweep_rc_d ops (e\<lparr>broyden_df := b, rtree_nearest := n, std_sort := s\<rparr>)
        params theta_o phi_o rc_list lgd_list cutoff tol = Some r)"
proof (intro impI, elim conjE)
  assume t: "sweep_theta_index ops e params theta_o phi_o rc_list lgd_list \<noteq> []"
    and p: "sweep_phi_index ops e params theta_o phi_o rc_list lgd_list = []"
  have p': "sweep_phi_index ops (e\<lparr>broyden_df := b, rtree_nearest := n, std_sort := s\<rparr>)
      params theta_o phi_o rc_list lgd_list = []"
    using p by (simp add: sweep_index_env)
  show "\<exists>r. sweep_rc_d ops e params theta_o phi_o rc_list lgd_list cutoff tol = Some r \<and>
      sw_theta_roots r =
        map (\<lambda>p. (rc_list ! snd p, lgd_list ! fst p))
          (sweep_theta_index ops e params theta_o phi_o rc_list lgd_list) \<and>
      length (sw_theta_roots r) =
        length (sweep_theta_index ops e params theta_o phi_o rc_list lgd_list) \<and>
      sw_theta_roots r \<noteq> [] \<and>
      sw_phi_roots r = [] \<and> sw_theta_roots_closest r = [] \<and> sw_results r = [] \<and>
      sweep_rc_d ops (e\<lparr>broyden_df := b, rtree_nearest := n, std_sort := s\<rparr>)
        params theta_o phi_o rc_list lgd_list cutoff tol = Some r"
    using t
    by (simp add: sweep_early[OF p] sweep_early[OF p'] sweep_index_env sample_grid_env
        root_row_def)
qed

lemma sample_grid_normal:
  "sample_grid exact_ops (ex_env NORMAL) (ex_params 0 0) (Fin 0) (Fin 0)
     [Fin (-1), Fin 1] [Fin 1, Fin 2] =
   [[\<lparr>c_theta = Fin (-1), c_phi = Fin 1, c_delta_theta = Fin (-1),
      c_delta_phi = Fin (sin (1 / 2)), c_lambda = Fin (-1), c_eta = Fin 0\<rparr>,
     \<lparr>c_theta = Fin 1, c_phi = Fin 1, c_delta_theta = Fin 1,
      c_delta_phi = Fin (sin (1 / 2)), c_lambda = Fin 1, c_eta = Fin 0\<rparr>],
    [\<lparr>c_theta = Fin (-1), c_phi = Fin 2, c_delta_theta = Fin (-1),
      c_delta_phi = Fin (sin 1), c_lambda = Fin (-1), c_eta = Fin 0\<rparr>,
     \<lparr>c_theta = Fin 1, c_phi = Fin 2, c_delta_theta = Fin 1,
      c_delta_phi = Fin (sin 1), c_lambda = Fin 1, c_eta = Fin 0\<rparr>]]"
  by (simp add: sample_grid_def sample_cell_def exact_ops_simps ex_env_simps ex_calc_ray_def
      Let_def ex_params_def)

lemma theta_index_normal:
  "sweep_theta_index exact_ops (ex_env NORMAL) (ex_params 0 0) (Fin 0) (Fin 0)
     [Fin (-1), Fin 1] [Fin 1, Fin 2] = [(1, 1)]"
  by (simp add: sweep_theta_index_def wrap_phi_exact_0 sample_grid_normal theta_roots_index_def
      interior_def upt_1_2 theta_test_def coeff_def sgn_r_def exact_ops_simps Let_def)

lemma phi_index_normal:
  "sweep_phi_index exact_ops (ex_env NORMAL) (ex_params 0 0) (Fin 0) (Fin 0)
     [Fin (-1), Fin 1] [Fin 1, Fin 2] = []"
  by (simp add: sweep_phi_index_def wrap_phi_exact_0 sample_grid_normal phi_roots_index_def
      interior_def upt_1_2 phi_test_def coeff_def sgn_r_def exact_ops_simps Let_def)

theorem theta_only_sweep_witness:
  "sweep_theta_index exact_ops (ex_env NORMAL) (ex_params 0 0) (Fin 0) (Fin 0)
     [Fin (-1), Fin 1] [Fin 1, Fin 2] \<noteq> [] \<and>
   sweep_phi_index exact_ops (ex_env NORMAL) (ex_params 0 0) (Fin 0) (Fin 0)
     [Fin (-1), Fin 1] [Fin 1, Fin 2] = [] \<and>
   (\<exists>r. sweep_rc_d exact_ops (ex_env NORMAL) (ex_params 0 0) (Fin 0) (Fin 0)
          [Fin (-1), Fin 1] [Fin 1, Fin 2] 1 (Fin 1) = Some r \<and>
        sw_theta_roots r = [(Fin 1, Fin 2)] \<and> sw_phi_roots r = [] \<and>
        sw_theta_roots_closest r = [] \<and> sw_results r = [])"
  using theta_only_sweep [where ops = exact_ops and e = "ex_env NORMAL"
      and params = "ex_params 0 0" and theta_o = "Fin 0" and phi_o = "Fin 0"
      and rc_list = "[Fin (-1), Fin 1]" and lgd_list = "[Fin 1, Fin 2]" and cutoff = 1
      and tol = "Fin 1" and b = "\<lambda>F x s. (x, s)" and n = "\<lambda>pts p. p"
      and s = "\<lambda>lt xs. xs"]
  by (simp add: theta_index_normal phi_index_normal) blast


section \<open>The outcome of root finding\<close>

lemma find_root_period_outcome:
  "root_outcome ops e params period theta_o (wrap_phi ops phi_o) tol
     (find_root_period ops e params period theta_o phi_o tol)"
  unfolding root_outcome_def find_root_period_def Let_def
  by (simp split: prod.splits)

lemma find_root_eq:
  "find_root ops e params theta_o phi_o tol =
   find_root_period ops e params INT_MAX theta_o (wrap_phi ops phi_o) tol"
  by (simp add: find_root_def)

text \<open>
  Claim C4. \<^verbatim>\<open>find_root_period\<close> and \<^verbatim>\<open>find_root\<close> are total and return a result
  of the shape the specification describes: after the solver, the residual is
  evaluated again at the solver's final point; on a status other than \<^verbatim>\<open>NORMAL\<close>
  or a residual norm above the tolerance the result has \<open>success = False\<close>, a reason
  that is not empty and no root; otherwise it has \<open>success = True\<close> and a root whose
  \<^verbatim>\<open>rc\<close> and \<^verbatim>\<open>log_abs_d\<close> are the final point. \<^verbatim>\<open>find_root\<close> is
  \<^verbatim>\<open>find_root_period\<close> at the period \<^verbatim>\<open>INT_MAX\<close>, with the target azimuth wrapped
  twice.
\<close>

theorem find_root_discriminated:
  "root_outcome ops e params period theta_o (wrap_phi ops phi_o) tol
     (find_root_period ops e params period theta_o phi_o tol) \<and>
   root_outcome ops e params INT_MAX theta_o (wrap_phi ops (wrap_phi ops phi_o)) tol
     (find_root ops e params theta_o phi_o tol)"
  by (simp add: find_root_eq find_root_period_outcome)

theorem find_root_discriminated_witness:
  "success (find_root_period exact_ops (ex_env NORMAL) (ex_params 0 0) 0 (Fin 0) (Fin 0) (Fin 1)) \<and>
   (\<exists>rt. root (find_root_period exact_ops (ex_env NORMAL) (ex_params 0 0) 0 (Fin 0) (Fin 0) (Fin 1))
           = Some rt \<and> res_rc rt = Fin 0 \<and> res_log_abs_d rt = Fin 0) \<and>
   \<not> success (find_root exact_ops (ex_env CONFINED) (ex_params 0 0) (Fin 0) (Fin 0) (Fin 1)) \<and>
   fail_reason (find_root exact_ops (ex_env CONFINED) (ex_params 0 0) (Fin 0) (Fin 0) (Fin 1)) \<noteq> [] \<and>
   root (find_root exact_ops (ex_env CONFINED) (ex_params 0 0) (Fin 0) (Fin 0) (Fin 1)) = None"
  using find_root_discriminated [of exact_ops "ex_env NORMAL" "ex_params 0 0" 0 "Fin 0" "Fin 0" "Fin 1"]
    find_root_discriminated [of exact_ops "ex_env CONFINED" "ex_params 0 0" 0 "Fin 0" "Fin 0" "Fin 1"]
  by (simp add: root_outcome_def wrap_phi_exact_0 ex_env_simps RootFunctor_call_def
      select_root_functor_def RootFunctor_any_def RootFunctor_period_def INT_MAX_def
      ex_calc_ray_def ex_params_def exact_ops_simps Let_def)


section \<open>The components of the residual\<close>

text \<open>
  Claim C2 as it is stated fails at one period: \<^verbatim>\<open>find_root_period\<close> called with
  the period \<^verbatim>\<open>INT_MAX\<close> builds the functor without a period, whose second
  component is the sine of the half difference, not
  \<open>phi_f - phi_o - INT_MAX * two_pi\<close>. Here the oracle returns the azimuth 0 for the
  target 0: the second component is \<open>sin 0 = 0\<close>.
\<close>

theorem period_INT_MAX_counterexample:
  "snd (fst (RootFunctor_call exact_ops (ex_env NORMAL)
         (select_root_functor INT_MAX (Fin 0) (Fin 0))
         (Fin 0, Fin 0) (ex_params 0 0, get_from_cache (ex_env NORMAL)))) \<noteq>
   r_sub exact_ops
     (r_sub exact_ops
        (phi_f (calc_ray (ex_env NORMAL) (rc_d_to_lambda_q (ex_env NORMAL) (ex_params 0 0))))
        (Fin 0))
     (r_mul exact_ops (r_of_int exact_ops INT_MAX) (two_pi exact_ops))"
  by (simp add: RootFunctor_call_def select_root_functor_def RootFunctor_any_def
      ex_env_simps ex_calc_ray_def ex_params_def exact_ops_simps INT_MAX_def Let_def)

text \<open>
  Claim C2, amended. Where the oracle reports \<^verbatim>\<open>NORMAL\<close> at the point, the residual
  has first component \<open>theta_f - theta_o\<close>; its second component is
  \<open>phi_f - phi_o - period * two_pi\<close> for a functor built with a period, and
  \<open>sin ((phi_f - phi_o) * half)\<close> for a functor built without. The functor of
  \<^verbatim>\<open>find_root_period\<close> is the one with the period \<open>P\<close> for every \<open>P\<close> other than
  \<^verbatim>\<open>INT_MAX\<close>, and the one without a period for \<open>P = INT_MAX\<close>.
\<close>

theorem residual_components:
  "ray_status (calc_ray e (rc_d_to_lambda_q e ((fst st)\<lparr>rc := fst x, log_abs_d := snd x\<rparr>)))
     = NORMAL \<and>
   ray = calc_ray e (rc_d_to_lambda_q e ((fst st)\<lparr>rc := fst x, log_abs_d := snd x\<rparr>)) \<longrightarrow>
   fst (RootFunctor_call ops e (RootFunctor_period P theta_o phi_o) x st) =
     (r_sub ops (theta_f ray) theta_o,
      r_sub ops (r_sub ops (phi_f ray) phi_o) (r_mul ops (r_of_int ops P) (two_pi ops))) \<and>
   fst (RootFunctor_call ops e (RootFunctor_any theta_o phi_o) x st) =
     (r_sub ops (theta_f ray) theta_o,
      r_sin ops (r_mul ops (r_sub ops (phi_f ray) phi_o) (half ops))) \<and>
   (P \<noteq> INT_MAX \<longrightarrow>
      select_root_functor P theta_o phi_o = RootFunctor_period P theta_o phi_o) \<and>
   select_root_functor INT_MAX theta_o phi_o = RootFunctor_any theta_o phi_o"
  by (simp add: RootFunctor_call_def RootFunctor_period_def RootFunctor_any_def
      select_root_functor_def Let_def)

theorem residual_components_witness:
  "ray_status (calc_ray (ex_env NORMAL) (rc_d_to_lambda_q (ex_env NORMAL)
      ((ex_params 0 0)\<lparr>rc := Fin 1, log_abs_d := Fin 7\<rparr>))) = NORMAL \<and>
   (3::int) \<noteq> INT_MAX \<and>
   fst (RootFunctor_call exact_ops (ex_env NORMAL) (select_root_functor 3 (Fin 2) (Fin 1))
         (Fin 1, Fin 7) (ex_params 0 0, get_from_cache (ex_env NORMAL))) =
     (Fin (1 - 2), Fin (7 - 1 - 3 * (2 * pi))) \<and>
   fst (RootFunctor_call exact_ops (ex_env NORMAL) (select_root_functor INT_MAX (Fin 2) (Fin 1))
         (Fin 1, Fin 7) (ex_params 0 0, get_from_cache (ex_env NORMAL))) =
     (Fin (1 - 2), Fin (sin ((7 - 1) / 2)))"
  using residual_components [where e = "ex_env NORMAL" and ops = exact_ops
      and st = "(ex_params 0 0, get_from_cache (ex_env NORMAL))" and x = "(Fin 1, Fin 7)"
      and ray = "calc_ray (ex_env NORMAL) (rc_d_to_lambda_q (ex_env NORMAL)
        ((ex_params 0 0)\<lparr>rc := Fin 1, log_abs_d := Fin 7\<rparr>))"
      and P = 3 and theta_o = "Fin 2" and phi_o = "Fin 1"]
  by (simp add: ex_env_simps ex_calc_ray_def exact_ops_simps INT_MAX_def)

section \<open>The high precision sweep refines the sweep\<close>

lemma promote_list_eq: "promote_list ops_h promote xs = map promote xs"
  by (rule nth_equalityI) (simp_all add: promote_list_def fold_update_length fold_update_nth)

lemma fold_append_map: "fold (\<lambda>res acc. acc @ [g res]) xs ys = ys @ map g xs"
  by (induction xs arbitrary: ys) simp_all

lemma get_low_prec_eq: "get_low_prec cast low_result x = cast_SweepResult cast low_result x"
  by (simp add: get_low_prec_def cast_SweepResult_def fold_append_map map_prod_def
      case_prod_unfold)

text \<open>
  Claim C7. \<^verbatim>\<open>sweep_rc_d_high\<close> is the sweep at the higher precision on the
  promoted parameters, target angles, lists and tolerance, with every field of its
  result (the six matrices, the three point lists and each refined result) cast back
  to the working precision.
\<close>

theorem sweep_high_refines:
  "sweep_rc_d_high ops_h e_h promote cast get_high_prec low_result
     params theta_o phi_o rc_list lgd_list cutoff tol =
   sweepHighPrecision_spec ops_h e_h promote cast get_high_prec low_result
     params theta_o phi_o rc_list lgd_list cutoff tol"
  by (simp add: sweep_rc_d_high_def sweepHighPrecision_spec_def promote_list_eq
      get_low_prec_eq fun_eq_iff cong: map_option_cong)


section \<open>Rounding in double precision\<close>

lemma binary64_ops_simps:
  "r_of_int binary64_ops i = b64_of_real (of_int i)" "r_lt binary64_ops = b_lt"
  "r_le binary64_ops = b_le" "r_sub binary64_ops = b_sub" "r_mul binary64_ops = b_mul"
  "r_div binary64_ops = b_div" "MY_FLOOR binary64_ops = b_floor"
  "two_pi binary64_ops = B_Fin b64_two_pi"
  by (simp_all add: binary64_ops_def)

lemma round_even_near:
  assumes "of_int n - 1 / 2 < y" "y < of_int n + 1 / 2"
  shows "round_even y = n"
proof (cases "of_int n \<le> y")
  case True
  then have "\<lfloor>y\<rfloor> = n" using assms by linarith
  then show ?thesis using assms True by (simp add: round_even_def Let_def)
next
  case False
  then have f: "\<lfloor>y\<rfloor> = n - 1" using assms by linarith
  show ?thesis using assms False by (simp add: round_even_def Let_def f)
qed

lemma round_even_of_int [simp]: "round_even (of_int n) = n"
  by (rule round_even_near) simp_all

lemma round_even_bounds: "y - 1 / 2 \<le> of_int (round_even y)" "of_int (round_even y) \<le> y + 1 / 2"
  unfolding round_even_def Let_def by (auto; linarith)+

lemma b64_ulp_exponent_eq:
  assumes "2 powi k \<le> \<bar>x\<bar>" "\<bar>x\<bar> < 2 powi (k + 1)" "- 1022 \<le> k"
  shows "b64_ulp_exponent x = k - 52"
proof -
  have pos: "0 < \<bar>x\<bar>" using assms(1) by (smt (verit) zero_less_power_int)
  have a: "2 powr real_of_int k \<le> \<bar>x\<bar>"
    using assms(1) by (simp add: powr_real_of_int')
  have "2 powr real_of_int (k + 1) = (2::real) powi (k + 1)"
    by (rule powr_real_of_int') simp_all
  then have b: "\<bar>x\<bar> < 2 powr (real_of_int k + 1)"
    using assms(2) by simp
  have "\<lfloor>log 2 \<bar>x\<bar>\<rfloor> = k"
    using floor_log_eq_powr_iff [of "\<bar>x\<bar>" 2 k] pos a b by simp
  then show ?thesis using assms(3) by (simp add: b64_ulp_exponent_def)
qed

lemma b64_round_eq:
  assumes "2 powi k \<le> \<bar>x\<bar>" "\<bar>x\<bar> < 2 powi (k + 1)" "- 1022 \<le> k"
  shows "b64_round x = of_int (round_even (x / 2 powi (k - 52))) * 2 powi (k - 52)"
proof -
  have "0 < \<bar>x\<bar>" using assms(1) by (smt (verit) zero_less_power_int)
  then have "x \<noteq> 0" by simp
  then show ?thesis by (simp add: b64_round_def b64_ulp_exponent_eq[OF assms])
qed


lemma b64_of_real_near:
  assumes k: "- 1022 \<le> k" "k < 1024"
    and n: "\<bar>of_int n * 2 powi (k - 52)\<bar> < (2::real) ^ 1024"
    and x: "2 powi k \<le> \<bar>x\<bar>" "\<bar>x\<bar> < 2 powi (k + 1)"
    and near: "of_int n - 1 / 2 < x / 2 powi (k - 52)" "x / 2 powi (k - 52) < of_int n + 1 / 2"
  shows "b64_of_real x = B_Fin (of_int n * 2 powi (k - 52))"
proof -
  have "round_even (x / 2 powi (k - 52)) = n"
    using near by (rule round_even_near)
  then have "b64_round x = of_int n * 2 powi (k - 52)"
    using b64_round_eq[OF x k(1)] by simp
  then show ?thesis using n by (simp add: b64_of_real_def)
qed

lemma b64_zero: "b64_of_real 0 = B_Fin 0"
  by (simp add: b64_of_real_def b64_round_def)

lemma b64_one: "b64_of_real 1 = B_Fin 1"
  using b64_of_real_near [of 0 "2 ^ 52" 1] by simp

lemma b64_two_pi_exact: "b64_of_real b64_two_pi = B_Fin b64_two_pi"
  using b64_of_real_near [of 2 7074237752028440 b64_two_pi] by (simp add: b64_two_pi_def)

lemma b64_minus_two_pi_exact: "b64_of_real (- b64_two_pi) = B_Fin (- b64_two_pi)"
  using b64_of_real_near [of 2 "- 7074237752028440" "- b64_two_pi"]
  by (simp add: b64_two_pi_def)

lemma b64_minus_one: "b64_of_real (- 1) = B_Fin (- 1)"
  using b64_of_real_near [of 0 "- (2 ^ 52)" "- 1"] by simp

lemma b64_minus_two: "b64_of_real (- 2) = B_Fin (- 2)"
  using b64_of_real_near [of 1 "- (2 ^ 52)" "- 2"] by simp

section \<open>Azimuth wrapping\<close>

lemma b64_tiny_plus_two_pi: "b64_of_real (tiny_angle + b64_two_pi) = B_Fin b64_two_pi"
  using b64_of_real_near [of 2 7074237752028440 "tiny_angle + b64_two_pi"]
  by (simp add: b64_two_pi_def tiny_angle_def)

lemma b64_tiny_quotient:
  "\<exists>q. b64_of_real (tiny_angle / b64_two_pi) = B_Fin q \<and> - 1 < q \<and> q < 0"
proof -
  let ?x = "tiny_angle / b64_two_pi"
  let ?y = "?x / 2 powi (- 73 - 52)"
  have x: "2 powi (- 73) \<le> \<bar>?x\<bar>" "\<bar>?x\<bar> < 2 powi (- 73 + 1)"
    by (simp_all add: b64_two_pi_def tiny_angle_def)
  have r: "b64_round ?x = of_int (round_even ?y) * 2 powi (- 73 - 52)"
    using b64_round_eq [OF x] by simp
  have y: "- (2 ^ 53) \<le> ?y" "?y \<le> - (2 ^ 52)"
    by (simp_all add: b64_two_pi_def tiny_angle_def)
  from round_even_bounds [of ?y] y
  have n: "- (2 ^ 53) - 1 / 2 \<le> real_of_int (round_even ?y)"
    "real_of_int (round_even ?y) \<le> - (2 ^ 52) + 1 / 2"
    by linarith+
  have q: "- 1 < b64_round ?x" "b64_round ?x < 0"
    using n unfolding r by (simp_all add: field_simps)
  then have "\<bar>b64_round ?x\<bar> < 2 ^ 1024" by simp
  then show ?thesis using q by (simp add: b64_of_real_def)
qed

lemma wrap_phi_tiny: "wrap_phi binary64_ops (B_Fin tiny_angle) = B_Fin b64_two_pi"
proof -
  obtain q where q: "b64_of_real (tiny_angle / b64_two_pi) = B_Fin q" "- 1 < q" "q < 0"
    using b64_tiny_quotient by blast
  from q(2,3) have "\<lfloor>q\<rfloor> = - 1" by linarith
  then have f: "real_of_int \<lfloor>q\<rfloor> = - 1" by simp
  have t: "b64_two_pi \<noteq> 0" by (simp add: b64_two_pi_def)
  have neg: "b_lt (B_Fin tiny_angle) (b64_of_real (of_int 0))"
    by (simp add: b64_zero tiny_angle_def)
  have d: "b_div (B_Fin tiny_angle) (B_Fin b64_two_pi) = B_Fin q"
    using t q(1) by simp
  have m: "b_mul (B_Fin b64_two_pi) (b_floor (B_Fin q)) = B_Fin (- b64_two_pi)"
    by (simp add: f b64_minus_two_pi_exact)
  have s: "b_sub (B_Fin tiny_angle) (B_Fin (- b64_two_pi)) = B_Fin b64_two_pi"
    by (simp add: b_sub_def b64_tiny_plus_two_pi)
  show ?thesis
    unfolding wrap_phi_def binary64_ops_simps using neg by (simp only: d m s if_True simp_thms)
qed

lemma wrap_phi_two_pi: "wrap_phi binary64_ops (B_Fin b64_two_pi) = B_Fin 0"
proof -
  have t: "b64_two_pi \<noteq> 0" by (simp add: b64_two_pi_def)
  have ge: "b_le (B_Fin b64_two_pi) (B_Fin b64_two_pi)" by simp
  have d: "b_div (B_Fin b64_two_pi) (B_Fin b64_two_pi) = B_Fin 1"
    using t by (simp add: b64_one)
  have m: "b_mul (B_Fin b64_two_pi) (b_floor (B_Fin 1)) = B_Fin b64_two_pi"
    by (simp add: b64_two_pi_exact)
  have s: "b_sub (B_Fin b64_two_pi) (B_Fin b64_two_pi) = B_Fin 0"
    by (simp add: b_sub_def b64_zero)
  show ?thesis
    unfolding wrap_phi_def binary64_ops_simps using ge by (simp only: d m s if_True simp_thms)
qed

lemma b64_tiny_exact: "b64_of_real tiny_angle = B_Fin tiny_angle"
  using b64_of_real_near [of "- 70" "- (2 ^ 52)" tiny_angle]
  by (simp add: tiny_angle_def)

lemma b64_large_exact: "b64_of_real large_angle = B_Fin large_angle"
  using b64_of_real_near [of 52 8063268522295296 large_angle]
  by (simp add: large_angle_def)

lemma b64_large_quotient: "b64_of_real (large_angle / b64_two_pi) = B_Fin 1283309042800579"
  using b64_of_real_near [of 50 5133236171202316 "large_angle / b64_two_pi"]
  by (simp add: large_angle_def b64_two_pi_def)

lemma b64_large_product: "b64_of_real (b64_two_pi * 1283309042800579) = B_Fin 8063268522295297"
  using b64_of_real_near [of 52 8063268522295297 "b64_two_pi * 1283309042800579"]
  by (simp add: b64_two_pi_def)

lemma wrap_phi_large: "wrap_phi binary64_ops (B_Fin large_angle) = B_Fin (- 1)"
proof -
  have t: "b64_two_pi \<noteq> 0" by (simp add: b64_two_pi_def)
  have ge: "b_le (B_Fin b64_two_pi) (B_Fin large_angle)"
    by (simp add: b64_two_pi_def large_angle_def)
  have d: "b_div (B_Fin large_angle) (B_Fin b64_two_pi) = B_Fin 1283309042800579"
    using t by (simp add: b64_large_quotient)
  have f: "b_floor (B_Fin 1283309042800579) = B_Fin 1283309042800579"
    by simp
  have m: "b_mul (B_Fin b64_two_pi) (B_Fin 1283309042800579) = B_Fin 8063268522295297"
    by (simp add: b64_large_product)
  have s: "b_sub (B_Fin large_angle) (B_Fin 8063268522295297) = B_Fin (- 1)"
    by (simp add: b_sub_def large_angle_def b64_minus_one)
  show ?thesis
    unfolding wrap_phi_def binary64_ops_simps using ge by (simp only: d f m s if_True simp_thms)
qed

text \<open>
  Claim C8 says that \<^verbatim>\<open>wrap_phi\<close> maps every finite angle into \<open>[0, 2 * pi)\<close> and is
  idempotent. With \<^verbatim>\<open>Real = double\<close> it does neither. At the angle \<open>- 2 ^ (- 70)\<close>,
  which is a double, \<^verbatim>\<open>phi / two_pi\<close> rounds to a number between \<open>-1\<close> and \<open>0\<close>, its
  floor is \<open>-1\<close>, and \<^verbatim>\<open>phi + two_pi\<close> rounds to \<^verbatim>\<open>two_pi\<close>: the result is
  \<^verbatim>\<open>two_pi\<close> itself, for which the function's own test \<^verbatim>\<open>phi >= two_pi\<close> holds, and
  wrapping it once more gives \<open>0\<close>, so that wrapping is not idempotent. At the angle
  \<open>58668 * 2 ^ 37\<close>, which is a double, the quotient rounds to \<open>1283309042800579\<close>,
  the product of \<^verbatim>\<open>two_pi\<close> with it rounds to \<open>8063268522295297\<close>, and the result
  is \<open>-1\<close>, which is not in the interval.
\<close>

theorem wrap_phi_binary64:
  "b64_of_real tiny_angle = B_Fin tiny_angle \<and>
   wrap_phi binary64_ops (B_Fin tiny_angle) = two_pi binary64_ops \<and>
   r_le binary64_ops (two_pi binary64_ops) (wrap_phi binary64_ops (B_Fin tiny_angle)) \<and>
   wrap_phi binary64_ops (wrap_phi binary64_ops (B_Fin tiny_angle)) = B_Fin 0 \<and>
   wrap_phi binary64_ops (wrap_phi binary64_ops (B_Fin tiny_angle)) \<noteq>
     wrap_phi binary64_ops (B_Fin tiny_angle) \<and>
   b64_of_real large_angle = B_Fin large_angle \<and>
   wrap_phi binary64_ops (B_Fin large_angle) = B_Fin (- 1)"
proof -
  have t: "b64_two_pi \<noteq> 0" by (simp add: b64_two_pi_def)
  then show ?thesis
    by (simp add: wrap_phi_tiny wrap_phi_two_pi binary64_ops_simps b64_tiny_exact
        b64_large_exact wrap_phi_large)
qed

text \<open>
  In exact arithmetic the function does what the claim says: the result is in
  \<open>[0, 2 * pi)\<close> and wrapping is idempotent. And for every number type, the sweep and
  the two root searches depend on the target azimuth through its wrapped value only.
\<close>

lemma wrap_phi_exact_value:
  "wrap_phi exact_ops (Fin a) =
   Fin (if a < 0 \<or> 2 * pi \<le> a then a - 2 * pi * of_int \<lfloor>a / (2 * pi)\<rfloor> else a)"
  by (simp add: wrap_phi_def exact_ops_simps)

lemma wrap_real_range:
  fixes a :: real
  defines "b \<equiv> a - 2 * pi * of_int \<lfloor>a / (2 * pi)\<rfloor>"
  shows "0 \<le> b" "b < 2 * pi"
proof -
  have p: "0 < 2 * pi" by simp
  have "of_int \<lfloor>a / (2 * pi)\<rfloor> \<le> a / (2 * pi)" by simp
  then have "of_int \<lfloor>a / (2 * pi)\<rfloor> * (2 * pi) \<le> a"
    using p by (simp add: le_divide_eq)
  then show "0 \<le> b" by (simp add: b_def mult.commute)
  have "a / (2 * pi) < of_int \<lfloor>a / (2 * pi)\<rfloor> + 1" by linarith
  then have "a < (of_int \<lfloor>a / (2 * pi)\<rfloor> + 1) * (2 * pi)"
    by (simp only: pos_divide_less_eq [OF p])
  then show "b < 2 * pi" by (simp add: b_def algebra_simps)
qed

lemma wrap_phi_exact_range:
  "\<exists>b. wrap_phi exact_ops (Fin a) = Fin b \<and> 0 \<le> b \<and> b < 2 * pi"
  using wrap_real_range [of a] by (auto simp: wrap_phi_exact_value)

lemma wrap_phi_exact_idem:
  "wrap_phi exact_ops (wrap_phi exact_ops (Fin a)) = wrap_phi exact_ops (Fin a)"
proof -
  obtain b where b: "wrap_phi exact_ops (Fin a) = Fin b" "0 \<le> b" "b < 2 * pi"
    using wrap_phi_exact_range by blast
  then show ?thesis by (simp add: wrap_phi_exact_value)
qed

lemma wrapped_before_use:
  assumes "wrap_phi ops phi_o = wrap_phi ops phi_o'"
  shows "sweep_rc_d ops e params theta_o phi_o rc_list lgd_list cutoff tol =
         sweep_rc_d ops e params theta_o phi_o' rc_list lgd_list cutoff tol"
    and "find_root_period ops e params period theta_o phi_o tol =
         find_root_period ops e params period theta_o phi_o' tol"
    and "find_root ops e params theta_o phi_o tol = find_root ops e params theta_o phi_o' tol"
  using assms by (simp_all add: sweep_rc_d_def find_root_period_def find_root_def)


section \<open>Removal of duplicates\<close>

lemma is_dup_exact:
  "is_dup exact_ops (Fin t) (ex_result a b) (ex_result c d) \<longleftrightarrow> \<bar>a - c\<bar> < t \<and> \<bar>b - d\<bar> < t"
  by (simp add: is_dup_def ex_result_def exact_ops_simps)

lemma upt_3: "[0..<3] = [0, 1, 2]" "[1..<3] = [1, 2]" "[2..<3] = [2]"
  by (simp_all add: upt_rec)

lemma dup_index_ex:
  "duplicated_index exact_ops (Fin (3 / 2)) [ex_result 1 0, ex_result 0 0, ex_result 2 0] = [1]"
  by (simp add: duplicated_index_def List.map_filter_def upt_3 is_dup_exact)

lemma is_dup_binary64:
  "is_dup binary64_ops (B_Fin (3 / 2)) (b_result 1 0) (b_result 0 0)"
  "is_dup binary64_ops (B_Fin (3 / 2)) (b_result 1 0) (b_result 2 0)"
  "\<not> is_dup binary64_ops (B_Fin (3 / 2)) (b_result 0 0) (b_result 2 0)"
  by (simp_all add: is_dup_def b_result_def binary64_ops_def b_sub_def b64_zero b64_one
      b64_minus_one b64_minus_two)

lemma dup_index_binary64:
  "duplicated_index binary64_ops (B_Fin (3 / 2)) [b_result 1 0, b_result 0 0, b_result 2 0] = [1]"
  by (simp add: duplicated_index_def List.map_filter_def upt_3 is_dup_binary64)

lemma keep_first_example:
  "keep_first binary64_ops (B_Fin (3 / 2)) [b_result 1 0, b_result 0 0, b_result 2 0] =
     [b_result 1 0]"
  by (simp add: keep_first_def upt_3 is_dup_binary64 Ex_less_Suc numeral_2_eq_2)

text \<open>
  Claim C1 says that no two entries of the result list that survive the removal of
  duplicates are within the tolerance of each other in both coordinates. The code
  does not achieve it. On the refined roots \<open>(1, 0)\<close>, \<open>(0, 0)\<close>, \<open>(2, 0)\<close> with the
  tolerance \<open>3/2\<close>, the inner loop breaks at the first duplicate \<open>(0, 0)\<close> of
  \<open>(1, 0)\<close> and never compares \<open>(1, 0)\<close> with \<open>(2, 0)\<close>: both survive, and they are
  duplicates of each other. Dropping every entry that has an earlier duplicate would
  leave \<open>(1, 0)\<close> alone. This is so in double precision and in exact arithmetic.
\<close>

theorem dedup_keeps_duplicates:
  "remove_duplicated binary64_ops (B_Fin (3 / 2)) [b_result 1 0, b_result 0 0, b_result 2 0] =
     Some [b_result 1 0, b_result 2 0] \<and>
   is_dup binary64_ops (B_Fin (3 / 2)) (b_result 1 0) (b_result 2 0) \<and>
   keep_first binary64_ops (B_Fin (3 / 2)) [b_result 1 0, b_result 0 0, b_result 2 0] =
     [b_result 1 0] \<and>
   remove_duplicated exact_ops (Fin (3 / 2)) [ex_result 1 0, ex_result 0 0, ex_result 2 0] =
     Some [ex_result 1 0, ex_result 2 0] \<and>
   is_dup exact_ops (Fin (3 / 2)) (ex_result 1 0) (ex_result 2 0)"
  by (simp add: remove_duplicated_def dup_index_binary64 is_dup_binary64 dup_index_ex
      is_dup_exact keep_first_example)

text \<open>
  On the same three roots in another order the index 2 is pushed twice, and the second
  erasure is at the end of the list.
\<close>

lemma dup_index_ex2:
  "duplicated_index exact_ops (Fin (3 / 2)) [ex_result 0 0, ex_result 2 0, ex_result 1 0] = [2, 2]"
  by (simp add: duplicated_index_def List.map_filter_def upt_3 is_dup_exact)

lemma dedup_undefined:
  "remove_duplicated exact_ops (Fin (3 / 2)) [ex_result 0 0, ex_result 2 0, ex_result 1 0] = None"
  by (simp add: remove_duplicated_def dup_index_ex2)



text \<open>
  Where being within the tolerance is symmetric and transitive on the results, no index
  is pushed twice, every entry with an earlier duplicate is pushed, and the code
  returns the entries with no earlier duplicate; no two of those are duplicates.
\<close>

lemma nths_as_map:
  "nths xs A = map ((!) xs) (filter (\<lambda>i. i \<in> A) [0..<length xs])"
proof -
  have "zip xs [0..<length xs] = map (\<lambda>i. (xs ! i, i)) [0..<length xs]"
    by (rule nth_equalityI) simp_all
  then show ?thesis
    by (simp add: nths_def filter_map comp_def)
qed

lemma nths_same:
  assumes "\<forall>i < length xs. i \<in> A \<longleftrightarrow> i \<in> B"
  shows "nths xs A = nths xs B"
proof -
  have "filter (\<lambda>i. i \<in> A) [0..<length xs] = filter (\<lambda>i. i \<in> B) [0..<length xs]"
    using assms by (intro filter_cong) auto
  then show ?thesis by (simp add: nths_as_map)
qed

lemma nths_erase:
  assumes k: "k < length xs" and S: "\<forall>s \<in> S. s < k"
  shows "nths (take k xs @ drop (Suc k) xs) (- S) = nths xs (- insert k S)"
proof -
  have m: "min (length xs) k = k" using k by simp
  have all: "nths (drop (Suc k) xs) A = drop (Suc k) xs" if "\<forall>j. j \<in> A" for A
    using that by (intro nths_all) simp
  have a: "nths (take k xs) (- S) = nths (take k xs) (- insert k S)"
    by (rule nths_same) simp
  have b: "nths (take k xs @ drop (Suc k) xs) (- S) = nths (take k xs) (- S) @ drop (Suc k) xs"
    using S by (auto simp: nths_append m intro!: all)
  have "nths (take k xs @ xs ! k # drop (Suc k) xs) (- insert k S) =
        nths (take k xs) (- insert k S) @ drop (Suc k) xs"
    using S by (auto simp: nths_append nths_Cons m intro!: all)
  then have "nths xs (- insert k S) = nths (take k xs) (- insert k S) @ drop (Suc k) xs"
    using id_take_nth_drop [OF k] by simp
  then show ?thesis
    by (simp add: a b)
qed

lemma erase_each_descending:
  "sorted_wrt (\<lambda>a b. b < a) ks \<Longrightarrow> \<forall>k \<in> set ks. k < length xs \<Longrightarrow>
   erase_each xs ks = Some (nths xs (- set ks))"
proof (induction ks arbitrary: xs)
  case Nil
  then show ?case by (simp add: nths_all)
next
  case (Cons k ks)
  from Cons.prems have k: "k < length xs" and below: "\<forall>s \<in> set ks. s < k"
    and srt: "sorted_wrt (\<lambda>a b. b < a) ks" by simp_all
  have "\<forall>s \<in> set ks. s < length (take k xs @ drop (Suc k) xs)"
    using k below by auto
  from Cons.IH [OF srt this] nths_erase [OF k below] k
  show ?case by simp
qed

lemma erase_each_sorted:
  assumes "distinct ks" "\<forall>k \<in> set ks. k < length xs"
  shows "erase_each xs (rev (sort ks)) = Some (nths xs (- set ks))"
proof -
  have "sorted_wrt (<) (sort ks)"
    using assms(1) by (simp add: strict_sorted_iff)
  then have "sorted_wrt (\<lambda>a b. b < a) (rev (sort ks))"
    by (simp add: sorted_wrt_rev)
  from erase_each_descending [OF this, of xs] assms(2) show ?thesis by simp
qed


lemma find_upt_Some:
  "find Q [a..<b] = Some j \<longleftrightarrow> a \<le> j \<and> j < b \<and> Q j \<and> (\<forall>k. a \<le> k \<and> k < j \<longrightarrow> \<not> Q k)"
proof
  assume "find Q [a..<b] = Some j"
  then obtain i where i: "i < length [a..<b]" "Q ([a..<b] ! i)" "j = [a..<b] ! i"
    "\<forall>k<i. \<not> Q ([a..<b] ! k)"
    unfolding find_Some_iff by blast
  then have j: "j = a + i" "i < b - a" by simp_all
  have "\<not> Q k" if "a \<le> k" "k < j" for k
  proof -
    have "k - a < i" using that j by linarith
    with i(4) have "\<not> Q ([a..<b] ! (k - a))" by blast
    then show ?thesis using that j by simp
  qed
  then show "a \<le> j \<and> j < b \<and> Q j \<and> (\<forall>k. a \<le> k \<and> k < j \<longrightarrow> \<not> Q k)"
    using i j by auto
next
  assume r: "a \<le> j \<and> j < b \<and> Q j \<and> (\<forall>k. a \<le> k \<and> k < j \<longrightarrow> \<not> Q k)"
  show "find Q [a..<b] = Some j"
    unfolding find_Some_iff
  proof (intro exI [of _ "j - a"] conjI allI impI)
    show "j - a < length [a..<b]" using r by simp linarith
    show "Q ([a..<b] ! (j - a))" using r by simp
    show "j = [a..<b] ! (j - a)" using r by simp
    fix k assume k: "k < j - a"
    have "a + k < b" using k r by linarith
    then have "[a..<b] ! k = a + k" by (rule nth_upt)
    moreover have "a \<le> a + k \<and> a + k < j" using k by linarith
    ultimately show "\<not> Q ([a..<b] ! k)" using r by metis
  qed
qed

lemma set_map_filter_eq: "set (List.map_filter g xs) = {y. \<exists>x \<in> set xs. g x = Some y}"
  by (induction xs) (auto split: option.splits)

lemma duplicated_index_set_subset:
  "j \<in> set (duplicated_index ops tol xs) \<Longrightarrow>
   j < length xs \<and> (\<exists>i<j. is_dup ops tol (xs ! i) (xs ! j))"
  by (auto simp: duplicated_index_def set_map_filter_eq find_upt_Some)


lemma dup_sym:
  "dup_equivalence ops tol xs \<Longrightarrow> i < length xs \<Longrightarrow> j < length xs \<Longrightarrow>
   is_dup ops tol (xs ! i) (xs ! j) \<Longrightarrow> is_dup ops tol (xs ! j) (xs ! i)"
  unfolding dup_equivalence_def by (meson nth_mem)

lemma dup_trans:
  "dup_equivalence ops tol xs \<Longrightarrow> i < length xs \<Longrightarrow> j < length xs \<Longrightarrow> k < length xs \<Longrightarrow>
   is_dup ops tol (xs ! i) (xs ! j) \<Longrightarrow> is_dup ops tol (xs ! j) (xs ! k) \<Longrightarrow>
   is_dup ops tol (xs ! i) (xs ! k)"
  unfolding dup_equivalence_def by (meson nth_mem)

lemma first_dup_Some:
  "find (\<lambda>j. is_dup ops tol (xs ! i) (xs ! j)) [i + 1..<length xs] = Some j \<longleftrightarrow>
   i < j \<and> j < length xs \<and> is_dup ops tol (xs ! i) (xs ! j) \<and>
   (\<forall>k. i < k \<and> k < j \<longrightarrow> \<not> is_dup ops tol (xs ! i) (xs ! k))"
  by (auto simp: find_upt_Some)

lemma duplicated_index_complete:
  assumes eq: "dup_equivalence ops tol xs"
    and j: "j < length xs" and i: "i < j" and d: "is_dup ops tol (xs ! i) (xs ! j)"
  shows "j \<in> set (duplicated_index ops tol xs)"
proof -
  define I where "I = {i. i < j \<and> is_dup ops tol (xs ! i) (xs ! j)}"
  have fin: "finite I" and ne: "I \<noteq> {}" using i d by (auto simp: I_def)
  define m where "m = Max I"
  have m: "m \<in> I" and mx: "\<forall>k \<in> I. k \<le> m"
    using fin ne by (simp_all add: m_def)
  then have mj: "m < j" and dm: "is_dup ops tol (xs ! m) (xs ! j)" by (simp_all add: I_def)
  have "\<not> is_dup ops tol (xs ! m) (xs ! k)" if k: "m < k" "k < j" for k
  proof
    assume "is_dup ops tol (xs ! m) (xs ! k)"
    then have "is_dup ops tol (xs ! k) (xs ! m)"
      using dup_sym [OF eq, of m k] k mj j by simp
    then have "is_dup ops tol (xs ! k) (xs ! j)"
      using dup_trans [OF eq, of k m j] dm k mj j by simp
    then have "k \<in> I" using k by (simp add: I_def)
    with mx k show False by auto
  qed
  then have "find (\<lambda>j. is_dup ops tol (xs ! m) (xs ! j)) [m + 1..<length xs] = Some j"
    unfolding first_dup_Some using mj j dm by blast
  moreover have "m \<in> set [0..<length xs]" using mj j by simp
  ultimately show ?thesis
    unfolding duplicated_index_def set_map_filter_eq by blast
qed

lemma duplicated_index_distinct:
  assumes eq: "dup_equivalence ops tol xs"
  shows "distinct (duplicated_index ops tol xs)"
proof -
  let ?f = "\<lambda>i. find (\<lambda>j. is_dup ops tol (xs ! i) (xs ! j)) [i + 1..<length xs]"
  have inj: "a = b" if ab: "?f a = Some j" "?f b = Some j" for a b j
  proof (rule ccontr)
    assume "a \<noteq> b"
    have le: False if lt: "a' < b'" and fa: "?f a' = Some j" and fb: "?f b' = Some j" for a' b'
    proof -
      from fa have a': "a' < j" "j < length xs" "is_dup ops tol (xs ! a') (xs ! j)"
        "\<forall>k. a' < k \<and> k < j \<longrightarrow> \<not> is_dup ops tol (xs ! a') (xs ! k)"
        unfolding first_dup_Some by blast+
      from fb have b': "b' < j" "is_dup ops tol (xs ! b') (xs ! j)"
        unfolding first_dup_Some by blast+
      have "is_dup ops tol (xs ! j) (xs ! b')"
        using dup_sym [OF eq, of b' j] a' b' by simp
      then have "is_dup ops tol (xs ! a') (xs ! b')"
        using dup_trans [OF eq, of a' j b'] a' b' by simp
      with a'(4) lt b'(1) show False by blast
    qed
    from \<open>a \<noteq> b\<close> consider "a < b" | "b < a" by linarith
    then show False using le ab by cases blast+
  qed
  have "inj_on (the \<circ> ?f) (set (filter (\<lambda>i. ?f i \<noteq> None) [0..<length xs]))"
  proof (rule inj_onI)
    fix a b
    assume a: "a \<in> set (filter (\<lambda>i. ?f i \<noteq> None) [0..<length xs])"
      and b: "b \<in> set (filter (\<lambda>i. ?f i \<noteq> None) [0..<length xs])"
      and e: "(the \<circ> ?f) a = (the \<circ> ?f) b"
    from a have "?f a \<noteq> None" unfolding set_filter by blast
    then obtain ja where ja: "?f a = Some ja" by blast
    from b have "?f b \<noteq> None" unfolding set_filter by blast
    then obtain jb where jb: "?f b = Some jb" by blast
    from e have "ja = jb" unfolding o_apply ja jb by (simp only: option.sel)
    with ja jb show "a = b" using inj by blast
  qed
  then show ?thesis
    by (simp add: duplicated_index_def List.map_filter_def distinct_map)
qed


lemma keep_first_no_dup:
  assumes "p < q" "q < length (keep_first ops tol xs)"
  shows "\<not> is_dup ops tol (keep_first ops tol xs ! p) (keep_first ops tol xs ! q)"
proof -
  let ?K = "\<lambda>j. \<not> (\<exists>i<j. is_dup ops tol (xs ! i) (xs ! j))"
  let ?I = "filter ?K [0..<length xs]"
  have q: "q < length ?I" and p: "p < length ?I"
    using assms by (simp_all add: keep_first_def)
  have "sorted_wrt (<) ?I" by (rule sorted_wrt_filter) simp
  then have lt: "?I ! p < ?I ! q"
    using assms(1) q by (rule sorted_wrt_nth_less)
  have "?I ! q \<in> set ?I" using q by (rule nth_mem)
  then have "?K (?I ! q)" unfolding set_filter by blast
  with lt have "\<not> is_dup ops tol (xs ! (?I ! p)) (xs ! (?I ! q))" by blast
  then show ?thesis
    using p q by (simp add: keep_first_def)
qed

lemma remove_duplicated_equivalence:
  assumes eq: "dup_equivalence ops tol xs"
  shows "remove_duplicated ops tol xs = Some (keep_first ops tol xs)"
proof -
  let ?D = "duplicated_index ops tol xs"
  have lt: "\<forall>k \<in> set ?D. k < length xs"
  proof
    fix k assume "k \<in> set ?D"
    from duplicated_index_set_subset [OF this] show "k < length xs" by simp
  qed
  have "remove_duplicated ops tol xs = Some (nths xs (- set ?D))"
    unfolding remove_duplicated_def
    by (rule erase_each_sorted [OF duplicated_index_distinct [OF eq] lt])
  moreover have "filter (\<lambda>i. i \<in> - set ?D) [0..<length xs] =
      filter (\<lambda>j. \<not> (\<exists>i<j. is_dup ops tol (xs ! i) (xs ! j))) [0..<length xs]"
  proof (rule filter_cong [OF refl])
    fix j assume "j \<in> set [0..<length xs]"
    then have j: "j < length xs" by simp
    show "(j \<in> - set ?D) = (\<not> (\<exists>i<j. is_dup ops tol (xs ! i) (xs ! j)))"
    proof (cases "j \<in> set ?D")
      case True
      from duplicated_index_set_subset [OF this] True show ?thesis by simp
    next
      case False
      have "\<not> is_dup ops tol (xs ! i) (xs ! j)" if "i < j" for i
        using duplicated_index_complete [OF eq j that] False by auto
      with False show ?thesis by simp
    qed
  qed
  ultimately show ?thesis
    by (simp add: nths_as_map keep_first_def)
qed


end
